theory Spec2Isabelle
  imports Complex_Main "HOL-Library.Word"
begin

section \<open>Arrays and Python values\<close>

text \<open>
  The two modules \<^verbatim>\<open>camera_analyzer.py\<close> and \<^verbatim>\<open>style_applicator.py\<close> work on
  two-dimensional NumPy arrays. An array is its shape together with its samples in
  row-major order. Samples of type \<^verbatim>\<open>uint8\<close> are 8-bit words. Floating-point samples are
  idealised as real numbers: rounding and overflow are outside the model. The one place
  where the code creates non-finite values, the unguarded division in
  \<^verbatim>\<open>apply_style\<close>, is modelled with the IEEE special values written out (type
  \<open>npfloat\<close> below). The arrays that \<^verbatim>\<open>apply_style\<close> works on carry their element
  type, \<^verbatim>\<open>float32\<close> or \<^verbatim>\<open>float64\<close>, since OpenCV refuses to combine two arrays of
  different element types.
\<close>

record 'a ndarray =
  height :: nat
  width :: nat
  pixels :: "'a list"

text \<open>A three-dimensional array (rows, columns, channels), as \<^verbatim>\<open>cv2.imread\<close> returns
  for a colour file; the samples are interleaved per pixel.\<close>

record ndarray3 =
  height3 :: nat
  width3 :: nat
  channels3 :: nat
  samples3 :: "8 word list"

datatype clean_image = Array2D "8 word ndarray" | Array3D ndarray3

datatype py_error = FileNotFoundError | OSError | ValueError | CvError

datatype npfloat = Fin real | PInf | NInf | NaN

datatype dtype = Float32 | Float64

text \<open>A floating-point array together with its element type.\<close>

record 'a typed =
  dtype :: dtype
  data :: "'a ndarray"

definition map_array :: "('a \<Rightarrow> 'b) \<Rightarrow> 'a ndarray \<Rightarrow> 'b ndarray" where
  "map_array f a = \<lparr>height = height a, width = width a, pixels = map f (pixels a)\<rparr>"

definition same_shape :: "'a ndarray \<Rightarrow> 'b ndarray \<Rightarrow> bool" where
  \<comment> \<open>Equal shapes; a NumPy array of shape (h, w) always holds h * w samples, so the
      comparison of the sample counts adds nothing on real arrays.\<close>
  "same_shape a b \<longleftrightarrow>
     height a = height b \<and> width a = width b \<and> length (pixels a) = length (pixels b)"

definition zip_array :: "('a \<Rightarrow> 'b \<Rightarrow> 'c) \<Rightarrow> 'a ndarray \<Rightarrow> 'b ndarray \<Rightarrow> py_error + 'c ndarray" where
  \<comment> \<open>An elementwise binary operation on two arrays of one shape. The arrays the code
      combines always come from \<^verbatim>\<open>cv2.resize\<close> or \<^verbatim>\<open>cv2.GaussianBlur\<close> with the
      shape of the other operand; any other pair of shapes is an error here
      (broadcasting of degenerate axes is not modelled).\<close>
  "zip_array f a b =
     (if same_shape a b
      then Inr \<lparr>height = height a, width = width a, pixels = map2 f (pixels a) (pixels b)\<rparr>
      else Inl ValueError)"

definition np_zeros :: "nat \<Rightarrow> nat \<Rightarrow> real ndarray" where
  \<comment> \<open>\<^verbatim>\<open>np.zeros((h, w), dtype=np.float64)\<close>\<close>
  "np_zeros h w = \<lparr>height = h, width = w, pixels = replicate (h * w) 0\<rparr>"

definition astype_float64 :: "8 word ndarray \<Rightarrow> real ndarray" where
  "astype_float64 a = map_array (\<lambda>p. real (unat p)) a"

definition astype_float32 :: "8 word ndarray \<Rightarrow> real typed" where
  "astype_float32 a = \<lparr>dtype = Float32, data = map_array (\<lambda>p. real (unat p)) a\<rparr>"

definition np_add :: "real ndarray \<Rightarrow> real ndarray \<Rightarrow> py_error + real ndarray" where
  "np_add a b = zip_array (+) a b"

definition np_sub :: "real ndarray \<Rightarrow> real ndarray \<Rightarrow> py_error + real ndarray" where
  "np_sub a b = zip_array (-) a b"

definition np_div_count :: "real ndarray \<Rightarrow> nat \<Rightarrow> real ndarray" where
  \<comment> \<open>\<^verbatim>\<open>accumulator / processed_image_count\<close>; the code reaches it with a positive count only.\<close>
  "np_div_count a n = map_array (\<lambda>x. x / real n) a"

definition np_max :: "real ndarray \<Rightarrow> py_error + real" where
  \<comment> \<open>\<^verbatim>\<open>a.max()\<close>: NumPy raises ValueError on a zero-size array.\<close>
  "np_max a = (case pixels a of [] \<Rightarrow> Inl ValueError | x # xs \<Rightarrow> Inr (fold max xs x))"

subsection \<open>Paths and file names\<close>

definition SUPPORTED_EXTENSIONS :: "string list" where
  "SUPPORTED_EXTENSIONS = [''.jpg'', ''.jpeg'', ''.png'', ''.bmp'', ''.tiff'', ''.tif'']"

definition basename :: "string \<Rightarrow> string" where
  \<comment> \<open>\<^verbatim>\<open>os.path.basename\<close>: what follows the last separator.\<close>
  "basename p = rev (takeWhile (\<lambda>c. c \<noteq> CHR ''/'') (rev p))"

definition splitext_ext :: "string \<Rightarrow> string" where
  \<comment> \<open>\<^verbatim>\<open>os.path.splitext(p)[1]\<close>: the last dot of the last component and what follows
      it, unless only dots come before it in that component.\<close>
  "splitext_ext p =
     (let comp = basename p;
          tail = takeWhile (\<lambda>c. c \<noteq> CHR ''.'') (rev comp);
          stem = rev (drop (Suc (length tail)) (rev comp))
      in if CHR ''.'' \<in> set comp \<and> (\<exists>c \<in> set stem. c \<noteq> CHR ''.'')
         then CHR ''.'' # rev tail else [])"

definition lower_char :: "char \<Rightarrow> char" where
  "lower_char c =
     (let n = (of_char c :: nat) in if 65 \<le> n \<and> n \<le> 90 then char_of (n + 32) else c)"

definition lower :: "string \<Rightarrow> string" where
  \<comment> \<open>\<^verbatim>\<open>str.lower\<close> on ASCII file names.\<close>
  "lower s = map lower_char s"

definition path_join :: "string \<Rightarrow> string \<Rightarrow> string" where
  \<comment> \<open>\<^verbatim>\<open>os.path.join\<close> of a directory and one name.\<close>
  "path_join d f =
     (if f \<noteq> [] \<and> hd f = CHR ''/'' then f
      else if d = [] \<or> last d = CHR ''/'' then d @ f
      else d @ ''/'' @ f)"

definition supported :: "string \<Rightarrow> bool" where
  "supported f \<longleftrightarrow> lower (splitext_ext f) \<in> set SUPPORTED_EXTENSIONS"

subsection \<open>The libraries the code calls\<close>

text \<open>
  Directory listing, image decoding, resampling, blurring and colour conversion are done
  by the operating system and by OpenCV. They are parameters of the model: a record of
  functions, each returning \<open>Inl\<close> of an error where the library raises. The theorems
  below say which properties of these functions they rely on.
\<close>

record env =
  os_listdir :: "string \<Rightarrow> py_error + string list"
  cv2_imread_gray :: "string \<Rightarrow> py_error + (8 word ndarray) option"
  cv2_resize_area :: "8 word ndarray \<Rightarrow> nat \<times> nat \<Rightarrow> py_error + 8 word ndarray"
  cv2_GaussianBlur :: "real ndarray \<Rightarrow> int \<times> int \<Rightarrow> py_error + real ndarray"
  cv2_cvtColor_gray :: "ndarray3 \<Rightarrow> py_error + 8 word ndarray"
  cv2_resize_cubic :: "real ndarray \<Rightarrow> nat \<times> nat \<Rightarrow> py_error + real ndarray"
  nan_as_uint8 :: "8 word"

section \<open>camera\_analyzer: extract\_fingerprint\<close>

datatype warning = CannotRead string | ProcessingError string py_error

record loop_state =
  accumulator :: "real ndarray"
  processed_image_count :: nat
  warnings :: "warning list"

definition skip :: "warning \<Rightarrow> loop_state \<Rightarrow> loop_state" where
  "skip w st = st\<lparr>warnings := warnings st @ [w]\<rparr>"

definition loop_body :: "env \<Rightarrow> nat \<times> nat \<Rightarrow> loop_state \<Rightarrow> string \<Rightarrow> loop_state" where
  \<comment> \<open>One iteration of the \<^verbatim>\<open>for path in image_paths\<close> loop; every exception inside the
      \<^verbatim>\<open>try\<close> block ends in the \<^verbatim>\<open>except Exception\<close> branch, which warns and continues.\<close>
  "loop_body E process_resolution st path =
     (case cv2_imread_gray E path of
        Inl e \<Rightarrow> skip (ProcessingError (basename path) e) st
      | Inr None \<Rightarrow> skip (CannotRead (basename path)) st
      | Inr (Some img) \<Rightarrow>
          (case cv2_resize_area E img process_resolution of
             Inl e \<Rightarrow> skip (ProcessingError (basename path) e) st
           | Inr img_resized \<Rightarrow>
               (case np_add (accumulator st) (astype_float64 img_resized) of
                  Inl e \<Rightarrow> skip (ProcessingError (basename path) e) st
                | Inr acc \<Rightarrow>
                    st\<lparr>accumulator := acc,
                       processed_image_count := processed_image_count st + 1\<rparr>)))"

fun accumulate :: "env \<Rightarrow> nat \<times> nat \<Rightarrow> loop_state \<Rightarrow> string list \<Rightarrow> loop_state" where
  "accumulate E process_resolution st [] = st"
| "accumulate E process_resolution st (path # paths) =
     accumulate E process_resolution (loop_body E process_resolution st path) paths"

definition initial_state :: "nat \<times> nat \<Rightarrow> loop_state" where
  \<comment> \<open>The accumulator has \<^verbatim>\<open>process_resolution[1]\<close> rows and \<^verbatim>\<open>process_resolution[0]\<close> columns.\<close>
  "initial_state process_resolution =
     \<lparr>accumulator = np_zeros (snd process_resolution) (fst process_resolution),
      processed_image_count = 0, warnings = []\<rparr>"

definition image_paths :: "string \<Rightarrow> string list \<Rightarrow> string list" where
  "image_paths raw_images_dir names = map (path_join raw_images_dir) (filter supported names)"

definition average_image :: "loop_state \<Rightarrow> real ndarray" where
  "average_image st = np_div_count (accumulator st) (processed_image_count st)"

type_synonym fingerprint = "real ndarray \<times> real ndarray"

text \<open>
  The processing resolution is a pair (width, height) of natural numbers and the kernel
  size a pair of integers that is handed to the blur as it is. The fields of a
  fingerprint hold finite numbers, as the fields that the extraction computes do.

  The result of \<^verbatim>\<open>extract_fingerprint\<close>: the warnings printed for skipped images, and
  either an exception that leaves the function (\<open>Inl\<close>), the pair \<^verbatim>\<open>(None, None)\<close>
  (\<open>Inr None\<close>) or the pair of the vignetting map and the noise map.
\<close>

definition extract_fingerprint ::
  "env \<Rightarrow> string \<Rightarrow> nat \<times> nat \<Rightarrow> int \<times> int \<Rightarrow> warning list \<times> (py_error + fingerprint option)" where
  "extract_fingerprint E raw_images_dir process_resolution blur_kernel_size =
     (case os_listdir E raw_images_dir of
        Inl e \<Rightarrow> if e = FileNotFoundError then ([], Inr None) else ([], Inl e)
      | Inr names \<Rightarrow>
          (let paths = image_paths raw_images_dir names in
           if paths = [] then ([], Inr None)
           else
             (let st = accumulate E process_resolution (initial_state process_resolution) paths in
              if processed_image_count st = 0 then (warnings st, Inr None)
              else
                (let average = average_image st in
                 case cv2_GaussianBlur E average blur_kernel_size of
                   Inl e \<Rightarrow> (warnings st, Inl e)
                 | Inr vignetting_map \<Rightarrow>
                     (case np_sub average vignetting_map of
                        Inl e \<Rightarrow> (warnings st, Inl e)
                      | Inr noise_map \<Rightarrow>
                          (warnings st, Inr (Some (vignetting_map, noise_map))))))))"

section \<open>style\_applicator: apply\_style\<close>

definition shape2 :: "'a ndarray \<Rightarrow> nat list" where
  "shape2 a = [height a, width a]"

definition shape_of :: "clean_image \<Rightarrow> nat list" where
  \<comment> \<open>\<^verbatim>\<open>clean_image.shape\<close>\<close>
  "shape_of img =
     (case img of Array2D a \<Rightarrow> shape2 a
      | Array3D c \<Rightarrow> [height3 c, width3 c, channels3 c])"

definition to_gray :: "env \<Rightarrow> clean_image \<Rightarrow> py_error + 8 word ndarray" where
  \<comment> \<open>Step 1: \<^verbatim>\<open>len(clean_image.shape) > 2\<close> holds for the three-axis array, which goes
      through \<^verbatim>\<open>cv2.cvtColor\<close>; a two-axis array is used as it is.\<close>
  "to_gray E img = (case img of Array3D c \<Rightarrow> cv2_cvtColor_gray E c | Array2D a \<Rightarrow> Inr a)"

definition np_true_divide :: "real \<Rightarrow> real \<Rightarrow> npfloat" where
  \<comment> \<open>Floating-point division of finite numbers: dividing by zero does not raise in
      NumPy, it yields an infinity, or NaN for 0 / 0.\<close>
  "np_true_divide x m =
     (if m \<noteq> 0 then Fin (x / m)
      else if x = 0 then NaN
      else if 0 < x then PInf else NInf)"

definition vignette_normalized :: "real ndarray \<Rightarrow> py_error + npfloat ndarray" where
  \<comment> \<open>Step 3: \<^verbatim>\<open>vignette_resized / vignette_resized.max()\<close>, with no guard.\<close>
  "vignette_normalized vignette_resized =
     (case np_max vignette_resized of
        Inl e \<Rightarrow> Inl e
      | Inr m \<Rightarrow> Inr (map_array (\<lambda>x. np_true_divide x m) vignette_resized))"

definition mul_float :: "real \<Rightarrow> npfloat \<Rightarrow> npfloat" where
  "mul_float a y =
     (case y of
        Fin b \<Rightarrow> Fin (a * b)
      | PInf \<Rightarrow> (if a = 0 then NaN else if 0 < a then PInf else NInf)
      | NInf \<Rightarrow> (if a = 0 then NaN else if 0 < a then NInf else PInf)
      | NaN \<Rightarrow> NaN)"

definition add_float :: "npfloat \<Rightarrow> real \<Rightarrow> npfloat" where
  "add_float x b = (case x of Fin a \<Rightarrow> Fin (a + b) | PInf \<Rightarrow> PInf | NInf \<Rightarrow> NInf | NaN \<Rightarrow> NaN)"

definition cv2_resize :: "env \<Rightarrow> real typed \<Rightarrow> nat \<times> nat \<Rightarrow> py_error + real typed" where
  \<comment> \<open>\<^verbatim>\<open>cv2.resize(src, dsize, interpolation=cv2.INTER_CUBIC)\<close>: the result has the
      element type of the source.\<close>
  "cv2_resize E src dsize =
     (case cv2_resize_cubic E (data src) dsize of
        Inl e \<Rightarrow> Inl e
      | Inr r \<Rightarrow> Inr \<lparr>dtype = dtype src, data = r\<rparr>)"

definition divide_by_max :: "real typed \<Rightarrow> py_error + npfloat typed" where
  \<comment> \<open>Step 3 with the element type: an array divided by its own maximum keeps its
      element type.\<close>
  "divide_by_max v =
     (case vignette_normalized (data v) of
        Inl e \<Rightarrow> Inl e
      | Inr vn \<Rightarrow> Inr \<lparr>dtype = dtype v, data = vn\<rparr>)"

definition np_multiply_scalar :: "real typed \<Rightarrow> real \<Rightarrow> real typed" where
  \<comment> \<open>\<^verbatim>\<open>noise_resized * noise_alpha\<close>: an array times a Python float keeps the element
      type of the array.\<close>
  "np_multiply_scalar a k = \<lparr>dtype = dtype a, data = map_array (\<lambda>x. x * k) (data a)\<rparr>"

definition cv2_multiply :: "real typed \<Rightarrow> npfloat typed \<Rightarrow> py_error + npfloat typed" where
  \<comment> \<open>\<^verbatim>\<open>cv2.multiply\<close> called without an output type: OpenCV raises when the two arrays
      differ in element type or in size, and otherwise returns the elementwise product
      in the common element type.\<close>
  "cv2_multiply a b =
     (if dtype a \<noteq> dtype b then Inl CvError
      else case zip_array mul_float (data a) (data b) of
             Inl e \<Rightarrow> Inl CvError
           | Inr c \<Rightarrow> Inr \<lparr>dtype = dtype a, data = c\<rparr>)"

definition cv2_add :: "npfloat typed \<Rightarrow> real typed \<Rightarrow> py_error + npfloat typed" where
  \<comment> \<open>\<^verbatim>\<open>cv2.add\<close>, with the same checks.\<close>
  "cv2_add a b =
     (if dtype a \<noteq> dtype b then Inl CvError
      else case zip_array add_float (data a) (data b) of
             Inl e \<Rightarrow> Inl CvError
           | Inr c \<Rightarrow> Inr \<lparr>dtype = dtype a, data = c\<rparr>)"

definition np_clip :: "real \<Rightarrow> real \<Rightarrow> npfloat \<Rightarrow> npfloat" where
  \<comment> \<open>\<^verbatim>\<open>np.clip\<close> is \<^verbatim>\<open>minimum(maximum(x, lo), hi)\<close>; NaN stays NaN.\<close>
  "np_clip lo hi x =
     (case x of Fin a \<Rightarrow> Fin (min (max a lo) hi) | PInf \<Rightarrow> Fin hi
      | NInf \<Rightarrow> Fin (min lo hi) | NaN \<Rightarrow> NaN)"

definition truncate :: "real \<Rightarrow> int" where
  "truncate x = (if 0 \<le> x then \<lfloor>x\<rfloor> else \<lceil>x\<rceil>)"

definition astype_uint8 :: "env \<Rightarrow> npfloat \<Rightarrow> 8 word" where
  \<comment> \<open>\<^verbatim>\<open>.astype(np.uint8)\<close>: the fraction is dropped and the integer is reduced modulo
      256; what a non-finite value becomes depends on the platform and is a parameter.\<close>
  "astype_uint8 E x = (case x of Fin a \<Rightarrow> word_of_int (truncate a) | _ \<Rightarrow> nan_as_uint8 E)"

text \<open>
  Steps 1 to 4 of \<^verbatim>\<open>apply_style\<close> (lines 55 to 81): the value of the variable
  \<^verbatim>\<open>final_image_float\<close>, before it is clipped and converted.
\<close>

definition final_image_float ::
  "env \<Rightarrow> clean_image \<Rightarrow> real typed \<Rightarrow> real typed \<Rightarrow> real \<Rightarrow> py_error + npfloat typed" where
  "final_image_float E clean_image vignetting_map noise_map noise_alpha =
     (case to_gray E clean_image of
        Inl e \<Rightarrow> Inl e
      | Inr clean_image_gray \<Rightarrow>
     (let target_resolution = (width clean_image_gray, height clean_image_gray) in
      case cv2_resize E vignetting_map target_resolution of
        Inl e \<Rightarrow> Inl e
      | Inr vignette_resized \<Rightarrow>
     (case cv2_resize E noise_map target_resolution of
        Inl e \<Rightarrow> Inl e
      | Inr noise_resized \<Rightarrow>
     (case divide_by_max vignette_resized of
        Inl e \<Rightarrow> Inl e
      | Inr vignette_norm \<Rightarrow>
     (let image_float = astype_float32 clean_image_gray in
      case cv2_multiply image_float vignette_norm of
        Inl e \<Rightarrow> Inl e
      | Inr image_with_vignette \<Rightarrow>
          cv2_add image_with_vignette (np_multiply_scalar noise_resized noise_alpha))))))"

text \<open>Step 5 (line 85) clips the samples to [0, 255] and converts them to \<^verbatim>\<open>uint8\<close>.\<close>

definition apply_style ::
  "env \<Rightarrow> clean_image \<Rightarrow> real typed \<Rightarrow> real typed \<Rightarrow> real \<Rightarrow> py_error + 8 word ndarray" where
  "apply_style E clean_image vignetting_map noise_map noise_alpha =
     (case final_image_float E clean_image vignetting_map noise_map noise_alpha of
        Inl e \<Rightarrow> Inl e
      | Inr final \<Rightarrow> Inr (map_array (\<lambda>x. astype_uint8 E (np_clip 0 255 x)) (data final)))"

text \<open>
  The computation the specification compares \<^verbatim>\<open>noise_alpha = 0\<close> with: the same steps
  with the noise left out, that is, the clamped product of the clean luminance image and
  the normalized vignetting field.
\<close>

definition vignette_only :: "env \<Rightarrow> clean_image \<Rightarrow> real typed \<Rightarrow> py_error + 8 word ndarray" where
  "vignette_only E clean_image vignetting_map =
     (case to_gray E clean_image of
        Inl e \<Rightarrow> Inl e
      | Inr clean_image_gray \<Rightarrow>
     (case cv2_resize E vignetting_map (width clean_image_gray, height clean_image_gray) of
        Inl e \<Rightarrow> Inl e
      | Inr vignette_resized \<Rightarrow>
     (case divide_by_max vignette_resized of
        Inl e \<Rightarrow> Inl e
      | Inr vn \<Rightarrow>
     (case cv2_multiply (astype_float32 clean_image_gray) vn of
        Inl e \<Rightarrow> Inl e
      | Inr product \<Rightarrow>
          Inr (map_array (\<lambda>x. astype_uint8 E (np_clip 0 255 x)) (data product))))))"

subsection \<open>The fingerprint between the two functions\<close>

text \<open>
  \<^verbatim>\<open>extract_fingerprint\<close> computes in \<^verbatim>\<open>float64\<close> throughout: the accumulator is
  \<^verbatim>\<open>np.zeros(..., dtype=np.float64)\<close>, and the average, its blur and their difference
  keep that type. \<^verbatim>\<open>save_maps\<close> writes each map as \<^verbatim>\<open>map.astype(np.float32)\<close> into an
  EXR file, and \<^verbatim>\<open>load_maps\<close> reads the files back unchanged; the codec is taken to
  return the array that was written. The two definitions give the fields as
  \<^verbatim>\<open>apply_style\<close> receives them, directly or through the files; the failure paths of
  saving and loading (missing files, a codec without EXR support) are not part of them.
\<close>

definition in_memory :: "fingerprint \<Rightarrow> real typed \<times> real typed" where
  "in_memory fp = (\<lparr>dtype = Float64, data = fst fp\<rparr>, \<lparr>dtype = Float64, data = snd fp\<rparr>)"

definition saved_and_loaded :: "fingerprint \<Rightarrow> real typed \<times> real typed" where
  "saved_and_loaded fp = (\<lparr>dtype = Float32, data = fst fp\<rparr>, \<lparr>dtype = Float32, data = snd fp\<rparr>)"

section \<open>What the loop computes\<close>

text \<open>
  The outcome of the loop body for one file, on its own: the warning it prints, or the
  image it adds to the accumulator. The accumulator never changes its shape, so whether
  the in-place addition succeeds depends on the resized image only.
\<close>

definition load_image :: "env \<Rightarrow> nat \<times> nat \<Rightarrow> string \<Rightarrow> warning + real ndarray" where
  "load_image E process_resolution path =
     (case cv2_imread_gray E path of
        Inl e \<Rightarrow> Inl (ProcessingError (basename path) e)
      | Inr None \<Rightarrow> Inl (CannotRead (basename path))
      | Inr (Some img) \<Rightarrow>
          (case cv2_resize_area E img process_resolution of
             Inl e \<Rightarrow> Inl (ProcessingError (basename path) e)
           | Inr img_resized \<Rightarrow>
               if same_shape (np_zeros (snd process_resolution) (fst process_resolution))
                    (astype_float64 img_resized)
               then Inr (astype_float64 img_resized)
               else Inl (ProcessingError (basename path) ValueError)))"

definition usable_images :: "env \<Rightarrow> nat \<times> nat \<Rightarrow> string list \<Rightarrow> real ndarray list" where
  "usable_images E process_resolution paths =
     concat (map (\<lambda>p. case load_image E process_resolution p of
                         Inl w \<Rightarrow> [] | Inr img \<Rightarrow> [img]) paths)"

definition skipped :: "env \<Rightarrow> nat \<times> nat \<Rightarrow> string list \<Rightarrow> warning list" where
  "skipped E process_resolution paths =
     concat (map (\<lambda>p. case load_image E process_resolution p of
                         Inl w \<Rightarrow> [w] | Inr img \<Rightarrow> []) paths)"

definition add_pixels :: "real ndarray \<Rightarrow> real ndarray \<Rightarrow> real ndarray" where
  "add_pixels a b =
     \<lparr>height = height a, width = width a, pixels = map2 (+) (pixels a) (pixels b)\<rparr>"

definition mean_image :: "nat \<times> nat \<Rightarrow> real ndarray list \<Rightarrow> real ndarray" where
  \<comment> \<open>The pixelwise sum of the images, divided by their number.\<close>
  "mean_image process_resolution imgs =
     np_div_count (foldl add_pixels (np_zeros (snd process_resolution) (fst process_resolution)) imgs)
       (length imgs)"

definition difference :: "real ndarray \<Rightarrow> real ndarray \<Rightarrow> real ndarray" where
  "difference a b =
     \<lparr>height = height a, width = width a, pixels = map2 (-) (pixels a) (pixels b)\<rparr>"

section \<open>Properties of arrays and of the libraries\<close>

definition uniform :: "nat \<Rightarrow> nat \<Rightarrow> 'a \<Rightarrow> 'a ndarray" where
  \<comment> \<open>The array of h rows and w columns with every sample equal to c.\<close>
  "uniform h w c = \<lparr>height = h, width = w, pixels = replicate (h * w) c\<rparr>"

definition well_formed :: "'a ndarray \<Rightarrow> bool" where
  \<comment> \<open>A non-empty array that holds as many samples as its shape says.\<close>
  "well_formed a \<longleftrightarrow>
     0 < height a \<and> 0 < width a \<and> length (pixels a) = height a * width a"

definition well_formed_clean :: "clean_image \<Rightarrow> bool" where
  \<comment> \<open>A decoded image: non-empty, and with three channels when it has a channel axis.\<close>
  "well_formed_clean img =
     (case img of
        Array2D a \<Rightarrow> well_formed a
      | Array3D c \<Rightarrow> channels3 c = 3 \<and> 0 < height3 c \<and> 0 < width3 c
          \<and> length (samples3 c) = height3 c * width3 c * 3)"

definition empty_array :: "'a ndarray \<Rightarrow> bool" where
  "empty_array a \<longleftrightarrow> height a = 0 \<or> width a = 0"

definition all_finite :: "npfloat ndarray \<Rightarrow> bool" where
  "all_finite a = list_all (\<lambda>x. case x of Fin r \<Rightarrow> True | _ \<Rightarrow> False) (pixels a)"

definition normalized_bound :: "npfloat ndarray \<Rightarrow> bool" where
  \<comment> \<open>The maximum of the field is 1.0 and no value exceeds 1.0.\<close>
  "normalized_bound a \<longleftrightarrow>
     list_ex (\<lambda>x. x = Fin 1) (pixels a)
     \<and> list_all (\<lambda>x. case x of Fin r \<Rightarrow> r \<le> 1 | _ \<Rightarrow> False) (pixels a)"

text \<open>
  What the theorems assume of OpenCV. \<^verbatim>\<open>cv2.resize\<close> raises on an empty source or an
  empty target size and otherwise returns an array of exactly the size asked for;
  \<^verbatim>\<open>cv2.cvtColor\<close> turns a three-channel image into a single-channel image of the same
  height and width; resampling or blurring a uniform image gives a uniform image of
  the same value.
\<close>

definition resize_contract :: "('a ndarray \<Rightarrow> nat \<times> nat \<Rightarrow> py_error + 'a ndarray) \<Rightarrow> bool" where
  "resize_contract f \<longleftrightarrow>
     (\<forall>src w h.
        (empty_array src \<or> w = 0 \<or> h = 0 \<longrightarrow> f src (w, h) = Inl CvError)
        \<and> (\<not> empty_array src \<and> 0 < w \<and> 0 < h \<longrightarrow>
             (\<exists>r. f src (w, h) = Inr r \<and> height r = h \<and> width r = w
                  \<and> length (pixels r) = h * w)))"

definition cvtColor_contract :: "(ndarray3 \<Rightarrow> py_error + 8 word ndarray) \<Rightarrow> bool" where
  "cvtColor_contract f \<longleftrightarrow>
     (\<forall>c. well_formed_clean (Array3D c) \<longrightarrow>
        (\<exists>g. f c = Inr g \<and> height g = height3 c \<and> width g = width3 c
             \<and> length (pixels g) = height3 c * width3 c))"

definition resize_keeps_uniform :: "('a ndarray \<Rightarrow> nat \<times> nat \<Rightarrow> py_error + 'a ndarray) \<Rightarrow> bool" where
  "resize_keeps_uniform f \<longleftrightarrow>
     (\<forall>h w c W H. 0 < h \<and> 0 < w \<and> 0 < W \<and> 0 < H \<longrightarrow>
        f (uniform h w c) (W, H) = Inr (uniform H W c))"

definition blur_keeps_uniform :: "(real ndarray \<Rightarrow> int \<times> int \<Rightarrow> py_error + real ndarray) \<Rightarrow> bool" where
  "blur_keeps_uniform f \<longleftrightarrow>
     (\<forall>h w c kw kh. 0 < h \<and> 0 < w \<and> 0 < kw \<and> 0 < kh \<and> odd kw \<and> odd kh \<longrightarrow>
        f (uniform h w c) (kw, kh) = Inr (uniform h w c))"

section \<open>A reference library\<close>

text \<open>
  Simple stand-ins for the library functions, used to run the model on concrete inputs:
  nearest-neighbour resampling, a blur that replaces every sample by the mean of the
  image (the limit of a very wide kernel), and the 8-bit luminance formula of OpenCV.
  They meet the assumptions above.
\<close>

definition ref_resize :: "'a ndarray \<Rightarrow> nat \<times> nat \<Rightarrow> py_error + 'a ndarray" where
  "ref_resize src dsize =
     (let W = fst dsize; H = snd dsize in
      if empty_array src \<or> W = 0 \<or> H = 0 then Inl CvError
      else Inr \<lparr>height = H, width = W,
                pixels = map (\<lambda>i. pixels src !
                                ((((i div W) * height src) div H) * width src
                                 + ((i mod W) * width src) div W))
                           [0 ..< H * W]\<rparr>)"

definition ref_GaussianBlur :: "real ndarray \<Rightarrow> int \<times> int \<Rightarrow> py_error + real ndarray" where
  "ref_GaussianBlur src ksize =
     (if 0 < fst ksize \<and> 0 < snd ksize \<and> odd (fst ksize) \<and> odd (snd ksize) \<and> pixels src \<noteq> []
      then Inr (map_array (\<lambda>x. sum_list (pixels src) / real (length (pixels src))) src)
      else Inl CvError)"

fun bgr2gray :: "8 word list \<Rightarrow> 8 word list" where
  "bgr2gray (b # g # r # rest) =
     word_of_nat ((1868 * unat b + 9617 * unat g + 4899 * unat r + 8192) div 16384)
       # bgr2gray rest"
| "bgr2gray rest = []"

definition ref_cvtColor :: "ndarray3 \<Rightarrow> py_error + 8 word ndarray" where
  "ref_cvtColor c =
     (if channels3 c = 3 \<and> 0 < height3 c \<and> 0 < width3 c
      then Inr \<lparr>height = height3 c, width = width3 c, pixels = bgr2gray (samples3 c)\<rparr>
      else Inl CvError)"

definition ref_env ::
  "(string \<Rightarrow> py_error + string list) \<Rightarrow> (string \<Rightarrow> py_error + (8 word ndarray) option) \<Rightarrow> env" where
  "ref_env ls rd =
     \<lparr>os_listdir = ls, cv2_imread_gray = rd, cv2_resize_area = ref_resize,
      cv2_GaussianBlur = ref_GaussianBlur, cv2_cvtColor_gray = ref_cvtColor,
      cv2_resize_cubic = ref_resize, nan_as_uint8 = 0\<rparr>"

text \<open>A directory with three supported files, one of them undecodable, and a text file;
  a directory without supported files; a directory whose two image files do not decode;
  every other directory is missing.\<close>

definition demo_listdir :: "string \<Rightarrow> py_error + string list" where
  "demo_listdir d =
     (if d = ''raw'' then Inr [''a.png'', ''b.JPG'', ''notes.txt'', ''c.bmp'']
      else if d = ''docs'' then Inr [''notes.txt'', ''.png'']
      else if d = ''broken'' then Inr [''x.png'', ''y.TIF'']
      else Inl FileNotFoundError)"

definition demo_imread :: "string \<Rightarrow> py_error + (8 word ndarray) option" where
  "demo_imread p =
     (if p = ''raw/a.png'' then Inr (Some \<lparr>height = 1, width = 2, pixels = [10, 30]\<rparr>)
      else if p = ''raw/c.bmp'' then Inr (Some \<lparr>height = 1, width = 2, pixels = [20, 60]\<rparr>)
      else Inr None)"

definition demo_env :: env where
  "demo_env = ref_env demo_listdir demo_imread"

text \<open>A directory of ten identical solid-gray images.\<close>

definition gray_names :: "string list" where
  "gray_names = [''g0.png'', ''g1.png'', ''g2.png'', ''g3.png'', ''g4.png'',
                 ''g5.png'', ''g6.png'', ''g7.png'', ''g8.png'', ''g9.png'']"

definition gray_env :: env where
  "gray_env = ref_env (\<lambda>d. Inr gray_names) (\<lambda>p. Inr (Some (uniform 2 2 128)))"

section \<open>Properties of extraction and application\<close>

lemma map2_add_sub:
  "length xs = length ys \<Longrightarrow> map2 (+) ys (map2 (-) xs ys) = (xs :: real list)"
  by (induction xs ys rule: list_induct2) auto

lemma zip_array_Inr:
  "zip_array f a b = Inr c \<Longrightarrow>
     same_shape a b \<and> height c = height a \<and> width c = width a
     \<and> pixels c = map2 f (pixels a) (pixels b)"
  by (auto simp: zip_array_def split: if_splits)

text \<open>
  Claim C1. For every successful extraction run, the returned vignetting map plus the
  returned noise map is the average image of that run, for every blur kernel and every
  blur the library computes.
\<close>

theorem decomposition_lossless:
  assumes "os_listdir E d = Inr names"
      and "extract_fingerprint E d res k = (ws, Inr (Some (v, n)))"
  shows "np_add v n = Inr (average_image (accumulate E res (initial_state res) (image_paths d names)))"
proof -
  let ?avg = "average_image (accumulate E res (initial_state res) (image_paths d names))"
  from assms have blur: "cv2_GaussianBlur E ?avg k = Inr v" and sub: "np_sub ?avg v = Inr n"
    by (auto simp: extract_fingerprint_def Let_def split: if_splits sum.splits)
  from sub have s: "same_shape ?avg v" and n: "height n = height ?avg" "width n = width ?avg"
    "pixels n = map2 (-) (pixels ?avg) (pixels v)"
    using zip_array_Inr[of "(-)" ?avg v n] by (simp_all add: np_sub_def)
  from s have len: "length (pixels ?avg) = length (pixels v)" and hw: "height ?avg = height v" "width ?avg = width v"
    by (simp_all add: same_shape_def)
  have "same_shape v n" using n len hw by (simp add: same_shape_def)
  moreover have "map2 (+) (pixels v) (pixels n) = pixels ?avg"
    using n len by (simp add: map2_add_sub)
  ultimately show ?thesis using hw by (simp add: np_add_def zip_array_def)
qed

lemma fold_max_ge: "(y::real) \<le> fold max xs y"
  by (induction xs arbitrary: y) (auto intro: order_trans[OF max.cobounded2])

lemma fold_max_upper: "x \<in> set xs \<Longrightarrow> (x::real) \<le> fold max xs y"
proof (induction xs arbitrary: y)
  case Nil then show ?case by simp
next
  case (Cons a xs)
  show ?case
  proof (cases "x = a")
    case True
    have "a \<le> max a y" by simp
    also have "\<dots> \<le> fold max xs (max a y)" by (rule fold_max_ge)
    finally show ?thesis using True by simp
  next
    case False
    with Cons show ?thesis by simp
  qed
qed

lemma fold_max_mem: "fold max xs y \<in> set (y # xs)" for y :: real
  by (induction xs arbitrary: y) (auto simp: max_def)

lemma np_max_Inr:
  "np_max a = Inr m \<Longrightarrow> m \<in> set (pixels a) \<and> (\<forall>x \<in> set (pixels a). x \<le> m)"
  using fold_max_mem fold_max_upper fold_max_ge
  by (auto simp: np_max_def split: list.splits)

lemma vignette_normalized_pos:
  "np_max vr = Inr m \<Longrightarrow> 0 < m \<Longrightarrow>
     vignette_normalized vr = Inr (map_array (\<lambda>x. Fin (x / m)) vr)"
  by (simp add: vignette_normalized_def np_true_divide_def)

text \<open>
  Claim C10. The division of the resampled vignetting field by its maximum has no guard;
  when that maximum is strictly positive, the division by zero does not occur and every
  value of the normalized field is the finite quotient.
\<close>

theorem division_finite:
  assumes "np_max vignette_resized = Inr m" and "0 < m"
  shows "vignette_normalized vignette_resized = Inr (map_array (\<lambda>x. Fin (x / m)) vignette_resized)
       \<and> all_finite (map_array (\<lambda>x. Fin (x / m)) vignette_resized)"
  using assms by (simp add: vignette_normalized_pos all_finite_def map_array_def list_all_iff)

text \<open>
  Claim C7, amended. For every resampled vignetting field whose maximum is strictly
  positive, the normalized field has maximum 1.0 and no value above 1.0.
\<close>

theorem normalization_bound:
  assumes "np_max vignette_resized = Inr m" and "0 < m"
  shows "\<exists>vn. vignette_normalized vignette_resized = Inr vn \<and> normalized_bound vn"
proof -
  from np_max_Inr[OF assms(1)] have mem: "m \<in> set (pixels vignette_resized)"
    and le: "\<forall>x \<in> set (pixels vignette_resized). x \<le> m" by simp_all
  have "normalized_bound (map_array (\<lambda>x. Fin (x / m)) vignette_resized)"
    unfolding normalized_bound_def map_array_def list_ex_iff list_all_iff
  proof (intro conjI)
    from mem assms(2) show "\<exists>x\<in>set (pixels \<lparr>height = height vignette_resized, width = width vignette_resized,
         pixels = map (\<lambda>x. Fin (x / m)) (pixels vignette_resized)\<rparr>). x = Fin 1"
      by (auto intro!: bexI[of _ "Fin (m / m)"])
    from le assms(2) show "\<forall>x\<in>set (pixels \<lparr>height = height vignette_resized, width = width vignette_resized,
         pixels = map (\<lambda>x. Fin (x / m)) (pixels vignette_resized)\<rparr>). case x of Fin r \<Rightarrow> r \<le> 1 | _ \<Rightarrow> False"
      by (auto simp: divide_le_eq_1)
  qed
  with vignette_normalized_pos[OF assms] show ?thesis by blast
qed

text \<open>
  Claim C7 as stated, for every resampled field, fails on the field of an all-black
  average image: its maximum is zero, and 0 / 0 is NaN.
\<close>

theorem normalization_zero_field:
  "vignette_normalized \<lparr>height = 1, width = 1, pixels = [0]\<rparr> = Inr \<lparr>height = 1, width = 1, pixels = [NaN]\<rparr>
   \<and> \<not> normalized_bound \<lparr>height = 1, width = 1, pixels = [NaN]\<rparr>"
  by (simp add: vignette_normalized_def np_max_def map_array_def np_true_divide_def normalized_bound_def)


lemma final_image_float_InrD:
  assumes "final_image_float E c v n \<alpha> = Inr fin"
  obtains g vr nr vn iwv where
    "to_gray E c = Inr g"
    "cv2_resize E v (width g, height g) = Inr vr"
    "cv2_resize E n (width g, height g) = Inr nr"
    "divide_by_max vr = Inr vn"
    "cv2_multiply (astype_float32 g) vn = Inr iwv"
    "cv2_add iwv (np_multiply_scalar nr \<alpha>) = Inr fin"
  using assms by (auto simp: final_image_float_def Let_def split: sum.splits)

lemma apply_style_InrD:
  assumes "apply_style E c v n \<alpha> = Inr out"
  obtains fin where
    "final_image_float E c v n \<alpha> = Inr fin"
    "out = map_array (\<lambda>x. astype_uint8 E (np_clip 0 255 x)) (data fin)"
  using assms by (auto simp: apply_style_def split: sum.splits)

lemma astype_uint8_in_range:
  assumes "0 \<le> a" and "a \<le> 255"
  shows "uint (astype_uint8 E (Fin a)) = \<lfloor>a\<rfloor>"
proof -
  from assms have "0 \<le> \<lfloor>a\<rfloor>" and "\<lfloor>a\<rfloor> < 2 ^ 8" by (simp_all add: floor_less_iff)
  then have "take_bit 8 \<lfloor>a\<rfloor> = \<lfloor>a\<rfloor>" by (simp only: take_bit_int_eq_self)
  with assms(1) show ?thesis
    by (simp add: astype_uint8_def truncate_def uint_word_of_int_eq)
qed

lemma uint8_bounds: "0 \<le> uint (p :: 8 word) \<and> uint p \<le> 255"
  using uint_bounded[of p] by simp

lemma clip_then_convert_finite:
  "uint (astype_uint8 E (np_clip 0 255 (Fin a)))
     = (if a < 0 then 0 else if 255 < a then 255 else \<lfloor>a\<rfloor>)"
proof -
  have c: "np_clip 0 255 (Fin a) = Fin (min (max a 0) 255)" by (simp add: np_clip_def)
  have "0 \<le> min (max a 0) 255" and "min (max a 0) 255 \<le> 255" by simp_all
  then have "uint (astype_uint8 E (Fin (min (max a 0) 255))) = \<lfloor>min (max a 0) 255\<rfloor>"
    by (rule astype_uint8_in_range)
  moreover have "\<lfloor>min (max a 0) 255\<rfloor> = (if a < 0 then 0 else if 255 < a then 255 else \<lfloor>a\<rfloor>)"
    by (simp add: min_def max_def)
  ultimately show ?thesis by (simp only: c)
qed

lemma clip_then_convert:
  "case x of
     Fin a \<Rightarrow> uint (astype_uint8 E (np_clip 0 255 x))
                = (if a < 0 then 0 else if 255 < a then 255 else \<lfloor>a\<rfloor>)
   | PInf \<Rightarrow> uint (astype_uint8 E (np_clip 0 255 x)) = 255
   | NInf \<Rightarrow> uint (astype_uint8 E (np_clip 0 255 x)) = 0
   | NaN \<Rightarrow> astype_uint8 E (np_clip 0 255 x) = nan_as_uint8 E"
proof (cases x)
  case (Fin a)
  then show ?thesis by (simp only: npfloat.case clip_then_convert_finite)
next
  case PInf
  have "uint (astype_uint8 E (Fin 255)) = \<lfloor>255 :: real\<rfloor>"
    by (rule astype_uint8_in_range) simp_all
  with PInf show ?thesis by (simp add: np_clip_def)
next
  case NInf
  have "uint (astype_uint8 E (Fin 0)) = \<lfloor>0 :: real\<rfloor>"
    by (rule astype_uint8_in_range) simp_all
  with NInf show ?thesis by (simp add: np_clip_def)
next
  case NaN
  then show ?thesis by (simp add: np_clip_def astype_uint8_def)
qed

text \<open>
  Claim C4. Every sample of an image returned by \<^verbatim>\<open>apply_style\<close> lies in [0, 255],
  whatever the clean image, the fingerprint and the noise strength are, and also when
  the value before clipping lies outside that range: a value below 0 gives the sample 0,
  a value above 255 gives the sample 255, and a value in between is truncated. The
  value before clipping is the sample of \<^verbatim>\<open>final_image_float\<close> at the same place.
\<close>

theorem output_in_range:
  assumes "apply_style E clean_image vignetting_map noise_map noise_alpha = Inr out"
  shows "\<exists>final. final_image_float E clean_image vignetting_map noise_map noise_alpha = Inr final
       \<and> length (pixels out) = length (pixels (data final))
       \<and> (\<forall>i < length (pixels out).
             0 \<le> uint (pixels out ! i) \<and> uint (pixels out ! i) \<le> 255
             \<and> (case pixels (data final) ! i of
                  Fin a \<Rightarrow> uint (pixels out ! i)
                             = (if a < 0 then 0 else if 255 < a then 255 else \<lfloor>a\<rfloor>)
                | PInf \<Rightarrow> uint (pixels out ! i) = 255
                | NInf \<Rightarrow> uint (pixels out ! i) = 0
                | NaN \<Rightarrow> pixels out ! i = nan_as_uint8 E))"
proof -
  from assms obtain final where
    f: "final_image_float E clean_image vignetting_map noise_map noise_alpha = Inr final"
    and out: "out = map_array (\<lambda>x. astype_uint8 E (np_clip 0 255 x)) (data final)"
    by (rule apply_style_InrD)
  have len: "length (pixels out) = length (pixels (data final))"
    by (simp add: out map_array_def)
  have "\<forall>i < length (pixels out).
          0 \<le> uint (pixels out ! i) \<and> uint (pixels out ! i) \<le> 255
          \<and> (case pixels (data final) ! i of
               Fin a \<Rightarrow> uint (pixels out ! i)
                          = (if a < 0 then 0 else if 255 < a then 255 else \<lfloor>a\<rfloor>)
             | PInf \<Rightarrow> uint (pixels out ! i) = 255
             | NInf \<Rightarrow> uint (pixels out ! i) = 0
             | NaN \<Rightarrow> pixels out ! i = nan_as_uint8 E)"
  proof (intro allI impI conjI)
    fix i assume i: "i < length (pixels out)"
    show "0 \<le> uint (pixels out ! i)" and "uint (pixels out ! i) \<le> 255"
      using uint8_bounds by blast+
    from i len have nth: "pixels out ! i = astype_uint8 E (np_clip 0 255 (pixels (data final) ! i))"
      by (simp add: out map_array_def)
    show "case pixels (data final) ! i of
               Fin a \<Rightarrow> uint (pixels out ! i)
                          = (if a < 0 then 0 else if 255 < a then 255 else \<lfloor>a\<rfloor>)
             | PInf \<Rightarrow> uint (pixels out ! i) = 255
             | NInf \<Rightarrow> uint (pixels out ! i) = 0
             | NaN \<Rightarrow> pixels out ! i = nan_as_uint8 E"
      using clip_then_convert[where x = "pixels (data final) ! i" and E = E] by (simp only: nth)
  qed
  with f len show ?thesis by blast
qed

lemma map2_add_float_zero:
  "length xs = length ys \<Longrightarrow> map2 add_float xs (map (\<lambda>x. 0) ys) = xs"
proof (induction xs ys rule: list_induct2)
  case Nil then show ?case by simp
next
  case (Cons x xs y ys)
  have "add_float x 0 = x" by (cases x) (simp_all add: add_float_def)
  with Cons show ?case by simp
qed

lemma cv2_add_zero:
  assumes "cv2_add a (np_multiply_scalar b 0) = Inr c"
  shows "c = a"
proof -
  from assms have z: "zip_array add_float (data a) (map_array (\<lambda>x. x * 0) (data b)) = Inr (data c)"
    and d: "dtype c = dtype a"
    by (auto simp: cv2_add_def np_multiply_scalar_def split: sum.splits if_splits)
  from zip_array_Inr[OF z] have len: "length (pixels (data a)) = length (pixels (data b))"
    and c: "height (data c) = height (data a)" "width (data c) = width (data a)"
      "pixels (data c) = map2 add_float (pixels (data a)) (map (\<lambda>x. 0) (pixels (data b)))"
    by (simp_all add: same_shape_def map_array_def)
  from c(3) len have "pixels (data c) = pixels (data a)" by (simp add: map2_add_float_zero)
  with c have "data c = data a" by simp
  with d show ?thesis by simp
qed

text \<open>
  Claim C5. With \<^verbatim>\<open>noise_alpha = 0\<close> the image returned by \<^verbatim>\<open>apply_style\<close> is the
  clamped product of the clean luminance image and the normalized vignetting field: the
  noise field contributes nothing.
\<close>

theorem noise_alpha_zero:
  assumes "apply_style E clean_image vignetting_map noise_map 0 = Inr out"
  shows "vignette_only E clean_image vignetting_map = Inr out"
proof -
  from assms obtain fin where
    f: "final_image_float E clean_image vignetting_map noise_map 0 = Inr fin"
    and out: "out = map_array (\<lambda>x. astype_uint8 E (np_clip 0 255 x)) (data fin)"
    by (rule apply_style_InrD)
  from f obtain g vr nr vn iwv where
    g: "to_gray E clean_image = Inr g"
    and vr: "cv2_resize E vignetting_map (width g, height g) = Inr vr"
    and vn: "divide_by_max vr = Inr vn"
    and iwv: "cv2_multiply (astype_float32 g) vn = Inr iwv"
    and fin: "cv2_add iwv (np_multiply_scalar nr 0) = Inr fin"
    by (rule final_image_float_InrD)
  from fin have "fin = iwv" by (rule cv2_add_zero)
  with g vr vn iwv out show ?thesis by (simp add: vignette_only_def)
qed


lemma same_shape_sym: "same_shape a b \<Longrightarrow> same_shape b a"
  by (simp add: same_shape_def)

lemma same_shape_trans: "same_shape a b \<Longrightarrow> same_shape b c \<Longrightarrow> same_shape a c"
  by (simp add: same_shape_def)

lemma same_shape_add_pixels:
  "same_shape a z \<Longrightarrow> same_shape z img \<Longrightarrow> same_shape (add_pixels a img) z"
  by (simp add: same_shape_def add_pixels_def)

lemma np_add_same_shape:
  "same_shape a img \<Longrightarrow> np_add a img = Inr (add_pixels a img)"
  by (simp add: np_add_def zip_array_def add_pixels_def)

lemma np_add_not_same_shape:
  "\<not> same_shape a img \<Longrightarrow> np_add a img = Inl ValueError"
  by (simp add: np_add_def zip_array_def)

lemma loop_body_load_image:
  assumes "same_shape (accumulator st) (np_zeros (snd res) (fst res))"
  shows "loop_body E res st path =
     (case load_image E res path of
        Inl w \<Rightarrow> skip w st
      | Inr img \<Rightarrow> st\<lparr>accumulator := add_pixels (accumulator st) img,
                       processed_image_count := processed_image_count st + 1\<rparr>)"
proof -
  have eq: "same_shape (accumulator st) x \<longleftrightarrow> same_shape (np_zeros (snd res) (fst res)) x" for x :: "real ndarray"
    using assms by (auto simp: same_shape_def)
  show ?thesis
    unfolding loop_body_def load_image_def
    by (auto split: sum.splits option.splits simp: eq np_add_same_shape np_add_not_same_shape)
qed

lemma load_image_Inr_shape:
  "load_image E res path = Inr img \<Longrightarrow> same_shape (np_zeros (snd res) (fst res)) img"
  by (auto simp: load_image_def split: sum.splits option.splits if_splits)

lemma accumulate_spec:
  assumes "same_shape (accumulator st) (np_zeros (snd res) (fst res))"
  shows "accumulate E res st paths =
     \<lparr>accumulator = foldl add_pixels (accumulator st) (usable_images E res paths),
      processed_image_count = processed_image_count st + length (usable_images E res paths),
      warnings = warnings st @ skipped E res paths\<rparr>"
  using assms
proof (induction paths arbitrary: st)
  case Nil
  then show ?case by (simp add: usable_images_def skipped_def)
next
  case (Cons p paths)
  show ?case
  proof (cases "load_image E res p")
    case (Inl w)
    have inv: "same_shape (accumulator (skip w st)) (np_zeros (snd res) (fst res))"
      using Cons.prems by (simp add: skip_def)
    show ?thesis
      using Cons.IH[OF inv] Inl
      by (simp add: loop_body_load_image[OF Cons.prems] usable_images_def skipped_def skip_def)
  next
    case (Inr img)
    let ?st = "st\<lparr>accumulator := add_pixels (accumulator st) img,
                    processed_image_count := processed_image_count st + 1\<rparr>"
    have inv: "same_shape (accumulator ?st) (np_zeros (snd res) (fst res))"
      using Cons.prems load_image_Inr_shape[OF Inr] by (simp add: same_shape_add_pixels)
    show ?thesis
      using Cons.IH[OF inv] Inr
      by (simp add: loop_body_load_image[OF Cons.prems] usable_images_def skipped_def)
  qed
qed

lemma accumulate_initial:
  "accumulate E res (initial_state res) paths =
     \<lparr>accumulator = foldl add_pixels (np_zeros (snd res) (fst res)) (usable_images E res paths),
      processed_image_count = length (usable_images E res paths),
      warnings = skipped E res paths\<rparr>"
proof -
  have "same_shape (accumulator (initial_state res)) (np_zeros (snd res) (fst res))"
    by (simp add: initial_state_def same_shape_def)
  from accumulate_spec[OF this] show ?thesis by (simp add: initial_state_def)
qed

lemma average_image_initial:
  "average_image (accumulate E res (initial_state res) paths) = mean_image res (usable_images E res paths)"
  by (simp add: accumulate_initial average_image_def mean_image_def)

lemma usable_images_empty_iff:
  "usable_images E res paths = [] \<longleftrightarrow> (\<forall>p \<in> set paths. isl (load_image E res p))"
  by (induction paths) (auto simp: usable_images_def split: sum.splits)

lemma length_usable_skipped:
  "length (usable_images E res paths) + length (skipped E res paths) = length paths"
  by (induction paths) (auto simp: usable_images_def skipped_def split: sum.splits)

lemma np_sub_same_shape: "same_shape a b \<Longrightarrow> np_sub a b = Inr (difference a b)"
  by (simp add: np_sub_def zip_array_def difference_def)

text \<open>
  Claim C2. When no image is processed successfully, because the directory is missing,
  because it holds no supported file, or because every candidate fails to load,
  \<^verbatim>\<open>extract_fingerprint\<close> returns the failure value \<^verbatim>\<open>(None, None)\<close>, not a
  fingerprint.
\<close>

theorem empty_batch_fails:
  assumes "os_listdir E d = Inl FileNotFoundError
         \<or> (\<exists>names. os_listdir E d = Inr names
               \<and> (filter supported names = []
                  \<or> (\<forall>p \<in> set (image_paths d names). isl (load_image E res p))))"
  shows "snd (extract_fingerprint E d res k) = Inr None"
  using assms
proof (elim disjE exE conjE)
  assume "os_listdir E d = Inl FileNotFoundError"
  then show ?thesis by (simp add: extract_fingerprint_def)
next
  fix names
  assume "os_listdir E d = Inr names" and "filter supported names = []"
  then show ?thesis by (simp add: extract_fingerprint_def image_paths_def)
next
  fix names
  assume l: "os_listdir E d = Inr names"
    and "\<forall>p \<in> set (image_paths d names). isl (load_image E res p)"
  then have "usable_images E res (image_paths d names) = []"
    by (simp add: usable_images_empty_iff)
  then show ?thesis
    using l by (simp add: extract_fingerprint_def Let_def accumulate_initial)
qed

text \<open>
  Claim C8. When at least one candidate loads, \<^verbatim>\<open>extract_fingerprint\<close> warns once
  for every candidate that fails and returns the fingerprint of the images that loaded:
  the average is their sum divided by their number, not by the number of candidates.
  The blur is assumed to succeed with a field of the shape of the average.
\<close>

theorem partial_failure_tolerated:
  assumes "os_listdir E d = Inr names"
    and "usable_images E res (image_paths d names) \<noteq> []"
    and "cv2_GaussianBlur E (mean_image res (usable_images E res (image_paths d names))) k = Inr v"
    and "same_shape (mean_image res (usable_images E res (image_paths d names))) v"
  shows "extract_fingerprint E d res k =
           (skipped E res (image_paths d names),
            Inr (Some (v, difference (mean_image res (usable_images E res (image_paths d names))) v)))
       \<and> length (usable_images E res (image_paths d names))
           + length (skipped E res (image_paths d names)) = length (image_paths d names)"
proof -
  let ?paths = "image_paths d names"
  from assms(2) have ne: "?paths \<noteq> []" by (auto simp: usable_images_def)
  from assms(2) have cnt: "length (usable_images E res ?paths) \<noteq> 0" by simp
  have "extract_fingerprint E d res k =
           (skipped E res ?paths, Inr (Some (v, difference (mean_image res (usable_images E res ?paths)) v)))"
    using assms(1) ne cnt assms(3) np_sub_same_shape[OF assms(4)]
    by (simp add: extract_fingerprint_def Let_def accumulate_initial average_image_def
        mean_image_def [symmetric])
  then show ?thesis by (simp add: length_usable_skipped)
qed


lemma to_gray_ok:
  assumes "cvtColor_contract (cv2_cvtColor_gray E)" and "well_formed_clean c"
  shows "\<exists>g. to_gray E c = Inr g \<and> well_formed g \<and> shape2 g = take 2 (shape_of c)"
proof (cases c)
  case (Array2D a)
  with assms(2) show ?thesis
    by (simp add: to_gray_def well_formed_clean_def shape_of_def shape2_def)
next
  case (Array3D c3)
  with assms(2) have wf: "well_formed_clean (Array3D c3)" by simp
  with assms(1) obtain g where g: "cv2_cvtColor_gray E c3 = Inr g" "height g = height3 c3"
    "width g = width3 c3" "length (pixels g) = height3 c3 * width3 c3"
    unfolding cvtColor_contract_def by blast
  from wf have "0 < height3 c3" "0 < width3 c3" by (simp_all add: well_formed_clean_def)
  with g Array3D show ?thesis
    by (simp add: to_gray_def well_formed_def shape_of_def shape2_def)
qed

lemma resize_contract_ok:
  assumes "resize_contract f" and "\<not> empty_array src" and "0 < w" and "0 < h"
  obtains r where "f src (w, h) = Inr r" "height r = h" "width r = w" "length (pixels r) = h * w"
  using assms unfolding resize_contract_def by blast

lemma resize_contract_empty:
  assumes "resize_contract f" and "empty_array src"
  shows "f src (w, h) = Inl CvError"
  using assms unfolding resize_contract_def by blast

lemma np_max_nonempty: "pixels a \<noteq> [] \<Longrightarrow> \<exists>m. np_max a = Inr m"
  by (cases "pixels a") (simp_all add: np_max_def)

lemma cv2_resize_ok:
  assumes "resize_contract (cv2_resize_cubic E)" and "\<not> empty_array (data src)"
    and "0 < w" and "0 < h"
  obtains r where "cv2_resize E src (w, h) = Inr r" "dtype r = dtype src"
    "height (data r) = h" "width (data r) = w" "length (pixels (data r)) = h * w"
proof -
  from resize_contract_ok[OF assms] obtain r0 where
    r0: "cv2_resize_cubic E (data src) (w, h) = Inr r0" "height r0 = h" "width r0 = w"
      "length (pixels r0) = h * w" by blast
  show thesis
    by (rule that[of "\<lparr>dtype = dtype src, data = r0\<rparr>"]) (simp_all add: cv2_resize_def r0)
qed

lemma cv2_resize_empty:
  assumes "resize_contract (cv2_resize_cubic E)" and "empty_array (data src)"
  shows "cv2_resize E src (w, h) = Inl CvError"
  using resize_contract_empty[OF assms] by (simp add: cv2_resize_def)

lemma divide_by_max_ok:
  assumes "pixels (data vr) \<noteq> []"
  obtains vn where "divide_by_max vr = Inr vn" "dtype vn = dtype vr"
    "height (data vn) = height (data vr)" "width (data vn) = width (data vr)"
    "length (pixels (data vn)) = length (pixels (data vr))"
proof -
  from assms obtain m where m: "np_max (data vr) = Inr m" using np_max_nonempty by blast
  show thesis
    by (rule that[of "\<lparr>dtype = dtype vr, data = map_array (\<lambda>x. np_true_divide x m) (data vr)\<rparr>"])
       (simp_all add: divide_by_max_def vignette_normalized_def m map_array_def)
qed

lemma cv2_multiply_ok:
  assumes "dtype a = dtype b" and "same_shape (data a) (data b)"
  obtains c where "cv2_multiply a b = Inr c" "dtype c = dtype a"
    "height (data c) = height (data a)" "width (data c) = width (data a)"
    "length (pixels (data c)) = length (pixels (data a))"
proof -
  let ?c = "\<lparr>dtype = dtype a, data = \<lparr>height = height (data a), width = width (data a),
               pixels = map2 mul_float (pixels (data a)) (pixels (data b))\<rparr>\<rparr>"
  from assms(2) have len: "length (pixels (data a)) = length (pixels (data b))"
    by (simp add: same_shape_def)
  have e: "cv2_multiply a b = Inr ?c"
    using assms by (simp add: cv2_multiply_def zip_array_def same_shape_def)
  show thesis by (rule that[OF e]) (simp_all add: len)
qed

lemma cv2_add_ok:
  assumes "dtype a = dtype b" and "same_shape (data a) (data b)"
  obtains c where "cv2_add a b = Inr c" "dtype c = dtype a"
    "height (data c) = height (data a)" "width (data c) = width (data a)"
    "length (pixels (data c)) = length (pixels (data a))"
proof -
  let ?c = "\<lparr>dtype = dtype a, data = \<lparr>height = height (data a), width = width (data a),
               pixels = map2 add_float (pixels (data a)) (pixels (data b))\<rparr>\<rparr>"
  from assms(2) have len: "length (pixels (data a)) = length (pixels (data b))"
    by (simp add: same_shape_def)
  have e: "cv2_add a b = Inr ?c"
    using assms by (simp add: cv2_add_def zip_array_def same_shape_def)
  show thesis by (rule that[OF e]) (simp_all add: len)
qed

lemma apply_style_steps:
  assumes rc: "resize_contract (cv2_resize_cubic E)"
    and g: "to_gray E c = Inr g" and wf: "well_formed g"
    and v: "\<not> empty_array (data v)" and n: "\<not> empty_array (data n)"
  obtains vr nr vn where
    "cv2_resize E v (width g, height g) = Inr vr" "dtype vr = dtype v"
    "height (data vr) = height g" "width (data vr) = width g"
    "cv2_resize E n (width g, height g) = Inr nr" "dtype nr = dtype n"
    "height (data nr) = height g" "width (data nr) = width g"
    "length (pixels (data nr)) = height g * width g"
    "divide_by_max vr = Inr vn" "dtype vn = dtype v"
    "same_shape (data (astype_float32 g)) (data vn)"
proof -
  from wf have h: "0 < height g" and w: "0 < width g"
    and len: "length (pixels g) = height g * width g" by (simp_all add: well_formed_def)
  from cv2_resize_ok[OF rc v w h] obtain vr where
    vr: "cv2_resize E v (width g, height g) = Inr vr" "dtype vr = dtype v"
        "height (data vr) = height g" "width (data vr) = width g"
        "length (pixels (data vr)) = height g * width g" by blast
  from cv2_resize_ok[OF rc n w h] obtain nr where
    nr: "cv2_resize E n (width g, height g) = Inr nr" "dtype nr = dtype n"
        "height (data nr) = height g" "width (data nr) = width g"
        "length (pixels (data nr)) = height g * width g" by blast
  from vr(5) h w have "pixels (data vr) \<noteq> []" by auto
  from divide_by_max_ok[OF this] obtain vn where
    vn: "divide_by_max vr = Inr vn" "dtype vn = dtype vr"
        "height (data vn) = height (data vr)" "width (data vn) = width (data vr)"
        "length (pixels (data vn)) = length (pixels (data vr))" by blast
  have "same_shape (data (astype_float32 g)) (data vn)"
    using vr vn len by (simp add: same_shape_def astype_float32_def map_array_def)
  with vr nr vn show thesis by (intro that[of vr nr vn]) simp_all
qed

lemma apply_style_succeeds:
  assumes rc: "resize_contract (cv2_resize_cubic E)"
    and g: "to_gray E c = Inr g" and wf: "well_formed g"
    and v: "\<not> empty_array (data v)" and n: "\<not> empty_array (data n)"
    and tv: "dtype v = Float32" and tn: "dtype n = Float32"
  shows "\<exists>vr nr out.
           cv2_resize E v (width g, height g) = Inr vr \<and> shape2 (data vr) = shape2 g
         \<and> cv2_resize E n (width g, height g) = Inr nr \<and> shape2 (data nr) = shape2 g
         \<and> apply_style E c v n \<alpha> = Inr out \<and> shape2 out = shape2 g
         \<and> length (pixels out) = height out * width out"
proof -
  from wf have len: "length (pixels g) = height g * width g" by (simp add: well_formed_def)
  from apply_style_steps[OF rc g wf v n] obtain vr nr vn where
    s: "cv2_resize E v (width g, height g) = Inr vr" "dtype vr = dtype v"
    "height (data vr) = height g" "width (data vr) = width g"
    "cv2_resize E n (width g, height g) = Inr nr" "dtype nr = dtype n"
    "height (data nr) = height g" "width (data nr) = width g"
    "length (pixels (data nr)) = height g * width g"
    "divide_by_max vr = Inr vn" "dtype vn = dtype v"
    "same_shape (data (astype_float32 g)) (data vn)" by blast
  have "dtype (astype_float32 g) = dtype vn" using s(11) tv by (simp add: astype_float32_def)
  from cv2_multiply_ok[OF this s(12)] obtain iwv where
    iwv: "cv2_multiply (astype_float32 g) vn = Inr iwv" "dtype iwv = dtype (astype_float32 g)"
      "height (data iwv) = height (data (astype_float32 g))"
      "width (data iwv) = width (data (astype_float32 g))"
      "length (pixels (data iwv)) = length (pixels (data (astype_float32 g)))" by blast
  let ?nz = "np_multiply_scalar nr \<alpha>"
  have t: "dtype iwv = dtype ?nz"
    using iwv(2) s(6) tn by (simp add: astype_float32_def np_multiply_scalar_def)
  have sh: "same_shape (data iwv) (data ?nz)"
    using iwv s len
    by (simp add: same_shape_def astype_float32_def np_multiply_scalar_def map_array_def)
  from cv2_add_ok[OF t sh] obtain fin where
    fin: "cv2_add iwv ?nz = Inr fin" "height (data fin) = height (data iwv)"
      "width (data fin) = width (data iwv)"
      "length (pixels (data fin)) = length (pixels (data iwv))" by blast
  have f: "final_image_float E c v n \<alpha> = Inr fin"
    unfolding final_image_float_def Let_def
    by (simp only: g s(1) s(5) s(10) iwv(1) fin(1) sum.case)
  let ?out = "map_array (\<lambda>x. astype_uint8 E (np_clip 0 255 x)) (data fin)"
  have "apply_style E c v n \<alpha> = Inr ?out" by (simp add: apply_style_def f)
  moreover have "shape2 ?out = shape2 g"
    using fin iwv by (simp add: shape2_def map_array_def astype_float32_def)
  moreover have "length (pixels ?out) = height ?out * width ?out"
    using fin iwv len by (simp add: map_array_def astype_float32_def)
  moreover have "shape2 (data vr) = shape2 g" "shape2 (data nr) = shape2 g"
    using s by (simp_all add: shape2_def)
  ultimately show ?thesis using s(1) s(5) by blast
qed

lemma apply_style_fails:
  assumes rc: "resize_contract (cv2_resize_cubic E)"
    and g: "to_gray E c = Inr g" and wf: "well_formed g"
    and bad: "empty_array (data v) \<or> empty_array (data n)
              \<or> dtype v \<noteq> Float32 \<or> dtype n \<noteq> Float32"
  shows "apply_style E c v n \<alpha> = Inl CvError"
proof (cases "empty_array (data v)")
  case True
  from cv2_resize_empty[OF rc True] g show ?thesis
    by (simp add: apply_style_def final_image_float_def Let_def)
next
  case v: False
  from wf have h: "0 < height g" and w: "0 < width g"
    and len: "length (pixels g) = height g * width g" by (simp_all add: well_formed_def)
  show ?thesis
  proof (cases "empty_array (data n)")
    case True
    from cv2_resize_ok[OF rc v w h] obtain vr where
      vr: "cv2_resize E v (width g, height g) = Inr vr" by blast
    from cv2_resize_empty[OF rc True] g vr show ?thesis
      by (simp add: apply_style_def final_image_float_def Let_def)
  next
    case n: False
    from apply_style_steps[OF rc g wf v n] obtain vr nr vn where
      s: "cv2_resize E v (width g, height g) = Inr vr" "dtype vr = dtype v"
      "height (data vr) = height g" "width (data vr) = width g"
      "cv2_resize E n (width g, height g) = Inr nr" "dtype nr = dtype n"
      "height (data nr) = height g" "width (data nr) = width g"
      "length (pixels (data nr)) = height g * width g"
      "divide_by_max vr = Inr vn" "dtype vn = dtype v"
      "same_shape (data (astype_float32 g)) (data vn)" by blast
    show ?thesis
    proof (cases "dtype v = Float32")
      case False
      then have "cv2_multiply (astype_float32 g) vn = Inl CvError"
        using s(11) by (auto simp: cv2_multiply_def astype_float32_def)
      then have "final_image_float E c v n \<alpha> = Inl CvError"
        unfolding final_image_float_def Let_def
        by (simp only: g s(1) s(5) s(10) sum.case)
      then show ?thesis by (simp add: apply_style_def)
    next
      case True
      with bad v n have tn: "dtype n \<noteq> Float32" by simp
      have "dtype (astype_float32 g) = dtype vn" using s(11) True by (simp add: astype_float32_def)
      from cv2_multiply_ok[OF this s(12)] obtain iwv where
        iwv: "cv2_multiply (astype_float32 g) vn = Inr iwv" "dtype iwv = dtype (astype_float32 g)"
        by blast
      have "cv2_add iwv (np_multiply_scalar nr \<alpha>) = Inl CvError"
        using iwv(2) s(6) tn
        by (auto simp: cv2_add_def astype_float32_def np_multiply_scalar_def)
      then have "final_image_float E c v n \<alpha> = Inl CvError"
        unfolding final_image_float_def Let_def
        by (simp only: g s(1) s(5) s(10) iwv(1) sum.case)
      then show ?thesis by (simp add: apply_style_def)
    qed
  qed
qed

text \<open>
  Claim C3, amended. \<^verbatim>\<open>apply_style\<close> does not validate the fingerprint and has no
  failure value of its own. On a well-formed clean image it fails exactly when the
  vignetting field or the noise field is zero-sized or is not a \<^verbatim>\<open>float32\<close> array, and
  the failure is the error that \<^verbatim>\<open>cv2.resize\<close>, \<^verbatim>\<open>cv2.multiply\<close> or \<^verbatim>\<open>cv2.add\<close>
  raises, which leaves the function uncaught; fields of different sizes are no failure,
  since each is resampled to the size of the clean image on its own.
\<close>

theorem apply_style_failure_modes:
  assumes "resize_contract (cv2_resize_cubic E)"
    and "cvtColor_contract (cv2_cvtColor_gray E)"
    and "well_formed_clean clean_image"
  shows "(empty_array (data vignetting_map) \<or> empty_array (data noise_map)
          \<or> dtype vignetting_map \<noteq> Float32 \<or> dtype noise_map \<noteq> Float32 \<longrightarrow>
            apply_style E clean_image vignetting_map noise_map noise_alpha = Inl CvError)
       \<and> (\<not> empty_array (data vignetting_map) \<and> \<not> empty_array (data noise_map)
          \<and> dtype vignetting_map = Float32 \<and> dtype noise_map = Float32 \<longrightarrow>
            (\<exists>out. apply_style E clean_image vignetting_map noise_map noise_alpha = Inr out))"
proof -
  from to_gray_ok[OF assms(2,3)] obtain g where g: "to_gray E clean_image = Inr g" "well_formed g"
    by blast
  show ?thesis
    using apply_style_fails[OF assms(1) g] apply_style_succeeds[OF assms(1) g]
    by blast
qed

text \<open>
  Claim C6, amended. For every well-formed clean image and every fingerprint with
  non-empty \<^verbatim>\<open>float32\<close> fields of whatever resolution, \<^verbatim>\<open>apply_style\<close> resamples both
  fields to the height and width of the clean image without error and returns a
  single-channel image of that height and width: its shape is the first two entries of the
  shape of the clean image.
\<close>

theorem resolution_invariance:
  assumes "resize_contract (cv2_resize_cubic E)"
    and "cvtColor_contract (cv2_cvtColor_gray E)"
    and "well_formed_clean clean_image"
    and "\<not> empty_array (data vignetting_map)" and "\<not> empty_array (data noise_map)"
    and "dtype vignetting_map = Float32" and "dtype noise_map = Float32"
  shows "\<exists>g vignette_resized noise_resized out.
           to_gray E clean_image = Inr g
         \<and> cv2_resize E vignetting_map (width g, height g) = Inr vignette_resized
         \<and> shape2 (data vignette_resized) = take 2 (shape_of clean_image)
         \<and> cv2_resize E noise_map (width g, height g) = Inr noise_resized
         \<and> shape2 (data noise_resized) = take 2 (shape_of clean_image)
         \<and> apply_style E clean_image vignetting_map noise_map noise_alpha = Inr out
         \<and> shape2 out = take 2 (shape_of clean_image)
         \<and> length (pixels out) = height out * width out"
proof -
  from to_gray_ok[OF assms(2,3)] obtain g where g: "to_gray E clean_image = Inr g" "well_formed g"
    and s: "shape2 g = take 2 (shape_of clean_image)" by blast
  from apply_style_succeeds[OF assms(1) g assms(4,5,6,7), of noise_alpha] g(1) s
  show ?thesis by auto
qed


subsection \<open>The reference library meets the assumptions\<close>

lemma ref_resize_contract: "resize_contract ref_resize"
  by (auto simp: resize_contract_def ref_resize_def Let_def)

lemma length_bgr2gray: "length (bgr2gray xs) = length xs div 3"
  by (induction xs rule: bgr2gray.induct) simp_all

lemma ref_cvtColor_contract: "cvtColor_contract ref_cvtColor"
  by (auto simp: cvtColor_contract_def ref_cvtColor_def well_formed_clean_def length_bgr2gray)

lemma div_mult_less:
  assumes "(a::nat) < b" and "0 < b"
  shows "a * c div b < c \<or> c = 0"
proof (cases "c = 0")
  case True then show ?thesis by simp
next
  case False
  then have "a * c < b * c" using assms by simp
  then have "a * c < c * b" by (simp add: mult.commute)
  then have "a * c div b < c" by (rule less_mult_imp_div_less)
  then show ?thesis by simp
qed

lemma index_in_range:
  assumes "(r::nat) < h" and "cc < w"
  shows "r * w + cc < h * w"
proof -
  have "r * w + cc < r * w + w" using assms(2) by simp
  also have "\<dots> = Suc r * w" by simp
  also have "\<dots> \<le> h * w" using assms(1) by (intro mult_le_mono1) simp
  finally show ?thesis .
qed

lemma ref_resize_index:
  assumes "(i::nat) < H * W" and "0 < h" and "0 < w" and "0 < W" and "0 < H"
  shows "(((i div W) * h) div H) * w + ((i mod W) * w) div W < h * w"
proof -
  have "i div W < H" using assms(1) by (rule less_mult_imp_div_less)
  with div_mult_less[of "i div W" H h] assms have r: "((i div W) * h) div H < h" by auto
  have "i mod W < W" using assms(4) by simp
  with div_mult_less[of "i mod W" W w] assms have c: "((i mod W) * w) div W < w" by auto
  from r c show ?thesis by (rule index_in_range)
qed

lemma ref_resize_keeps_uniform: "resize_keeps_uniform ref_resize"
  unfolding resize_keeps_uniform_def
proof (intro allI impI)
  fix h w :: nat and c :: 'a and W H :: nat
  assume a: "0 < h \<and> 0 < w \<and> 0 < W \<and> 0 < H"
  have "map (\<lambda>i. replicate (h * w) c ! ((((i div W) * h) div H) * w + ((i mod W) * w) div W)) [0 ..< H * W]
      = map (\<lambda>i. c) [0 ..< H * W]"
    using a by (intro map_cong refl) (simp add: ref_resize_index)
  also have "\<dots> = replicate (H * W) c" by (simp add: map_replicate_const)
  finally show "ref_resize (uniform h w c) (W, H) = Inr (uniform H W c)"
    using a by (simp add: ref_resize_def uniform_def empty_array_def Let_def)
qed

lemma ref_blur_keeps_uniform: "blur_keeps_uniform ref_GaussianBlur"
  by (auto simp: blur_keeps_uniform_def ref_GaussianBlur_def uniform_def map_array_def sum_list_replicate)

lemma ref_env_simps:
  "os_listdir (ref_env ls rd) = ls"
  "cv2_imread_gray (ref_env ls rd) = rd"
  "cv2_resize_area (ref_env ls rd) = ref_resize"
  "cv2_GaussianBlur (ref_env ls rd) = ref_GaussianBlur"
  "cv2_cvtColor_gray (ref_env ls rd) = ref_cvtColor"
  "cv2_resize_cubic (ref_env ls rd) = ref_resize"
  "nan_as_uint8 (ref_env ls rd) = 0"
  by (simp_all add: ref_env_def)

subsection \<open>Uniform images\<close>

lemma map_array_uniform: "map_array f (uniform h w c) = uniform h w (f c)"
  by (simp add: map_array_def uniform_def)

lemma map2_replicate: "map2 f (replicate n a) (replicate n b) = replicate n (f a b)"
  by (simp add: zip_replicate)

lemma zip_array_uniform: "zip_array f (uniform h w a) (uniform h w b) = Inr (uniform h w (f a b))"
  by (simp add: zip_array_def same_shape_def uniform_def map2_replicate)

lemma np_zeros_uniform: "np_zeros h w = uniform h w 0"
  by (simp add: np_zeros_def uniform_def)

lemma add_pixels_uniform: "add_pixels (uniform h w a) (uniform h w b) = uniform h w (a + b)"
  by (simp add: add_pixels_def uniform_def map2_replicate)

lemma foldl_add_pixels_uniform:
  "foldl add_pixels (uniform h w a) (replicate n (uniform h w b)) = uniform h w (a + real n * b)"
  by (induction n arbitrary: a) (simp_all add: add_pixels_uniform algebra_simps)

lemma funpow_max_self: "(max c ^^ n) c = (c::real)"
  by (induction n) simp_all

lemma fold_max_replicate: "fold max (replicate n c) c = (c::real)"
  by (simp add: fold_replicate funpow_max_self)

lemma np_max_uniform: "0 < h \<Longrightarrow> 0 < w \<Longrightarrow> np_max (uniform h w c) = Inr c"
proof -
  assume "0 < h" "0 < w"
  then obtain k where "h * w = Suc k" by (cases "h * w") auto
  then show ?thesis by (simp add: np_max_def uniform_def funpow_max_self)
qed

lemma load_image_uniform:
  assumes "resize_keeps_uniform (cv2_resize_area E)"
    and "cv2_imread_gray E p = Inr (Some (uniform h w c))" and "0 < h" "0 < w" "0 < W" "0 < H"
  shows "load_image E (W, H) p = Inr (uniform H W (real (unat c)))"
proof -
  from assms have "cv2_resize_area E (uniform h w c) (W, H) = Inr (uniform H W c)"
    unfolding resize_keeps_uniform_def by blast
  with assms(2) show ?thesis
    by (simp add: load_image_def astype_float64_def map_array_uniform np_zeros_uniform)
       (simp add: same_shape_def uniform_def)
qed

lemma usable_images_uniform:
  assumes "resize_keeps_uniform (cv2_resize_area E)" and "0 < W" "0 < H"
    and "\<forall>p \<in> set paths. \<exists>h w. 0 < h \<and> 0 < w \<and> cv2_imread_gray E p = Inr (Some (uniform h w c))"
  shows "usable_images E (W, H) paths = replicate (length paths) (uniform H W (real (unat c)))
       \<and> skipped E (W, H) paths = []"
  using assms(4)
proof (induction paths)
  case Nil
  then show ?case by (simp add: usable_images_def skipped_def)
next
  case (Cons p paths)
  then obtain h w where "0 < h" "0 < w" "cv2_imread_gray E p = Inr (Some (uniform h w c))"
    by auto
  from load_image_uniform[OF assms(1) this(3,1,2) assms(2,3)]
  have "load_image E (W, H) p = Inr (uniform H W (real (unat c)))" .
  with Cons show ?case by (simp add: usable_images_def skipped_def)
qed

lemma extract_fingerprint_uniform:
  assumes ra: "resize_keeps_uniform (cv2_resize_area E)"
    and bl: "blur_keeps_uniform (cv2_GaussianBlur E)"
    and ls: "os_listdir E d = Inr names"
    and ne: "image_paths d names \<noteq> []"
    and rd: "\<forall>p \<in> set (image_paths d names).
               \<exists>h w. 0 < h \<and> 0 < w \<and> cv2_imread_gray E p = Inr (Some (uniform h w c))"
    and pos: "0 < W" "0 < H" "0 < kw" "0 < kh" "odd kw" "odd kh"
  shows "extract_fingerprint E d (W, H) (kw, kh)
           = ([], Inr (Some (uniform H W (real (unat c)), uniform H W 0)))"
proof -
  let ?paths = "image_paths d names"
  let ?n = "length ?paths"
  define x where "x = real (unat c)"
  from ne have n: "0 < ?n" by simp
  from usable_images_uniform[OF ra pos(1,2) rd]
  have us: "usable_images E (W, H) ?paths = replicate ?n (uniform H W x)"
    and sk: "skipped E (W, H) ?paths = []" by (simp_all add: x_def)
  have acc: "accumulate E (W, H) (initial_state (W, H)) ?paths =
      \<lparr>accumulator = uniform H W (real ?n * x), processed_image_count = ?n, warnings = []\<rparr>"
    by (simp add: accumulate_initial us sk np_zeros_uniform foldl_add_pixels_uniform)
  have avg: "average_image \<lparr>accumulator = uniform H W (real ?n * x),
                processed_image_count = ?n, warnings = []\<rparr> = uniform H W x"
    using n by (simp add: average_image_def np_div_count_def map_array_uniform)
  from bl pos have blur: "cv2_GaussianBlur E (uniform H W x) (kw, kh) = Inr (uniform H W x)"
    unfolding blur_keeps_uniform_def by blast
  have sub: "np_sub (uniform H W x) (uniform H W x) = Inr (uniform H W 0)"
    by (simp add: np_sub_def zip_array_uniform)
  have "extract_fingerprint E d (W, H) (kw, kh) = ([], Inr (Some (uniform H W x, uniform H W 0)))"
    using ne n by (simp add: extract_fingerprint_def Let_def ls acc avg blur sub)
  then show ?thesis by (simp add: x_def)
qed

lemma final_image_float_uniform:
  assumes rc: "resize_keeps_uniform (cv2_resize_cubic E)"
    and pos: "0 < h" "0 < w" "0 < hv" "0 < wv" "0 < hn" "0 < wn"
  shows "final_image_float E (Array2D (uniform h w c))
           \<lparr>dtype = tv, data = uniform hv wv a\<rparr> \<lparr>dtype = tn, data = uniform hn wn b\<rparr> \<alpha>
       = (if tv \<noteq> Float32 \<or> tn \<noteq> Float32 then Inl CvError
          else Inr \<lparr>dtype = Float32, data = uniform h w
                 (add_float (mul_float (real (unat c)) (np_true_divide a a)) (b * \<alpha>))\<rparr>)"
proof -
  have hw: "height (uniform h w c) = h" "width (uniform h w c) = w" by (simp_all add: uniform_def)
  from rc pos have v: "cv2_resize_cubic E (uniform hv wv a) (w, h) = Inr (uniform h w a)"
    and n: "cv2_resize_cubic E (uniform hn wn b) (w, h) = Inr (uniform h w b)"
    unfolding resize_keeps_uniform_def by blast+
  have vn: "vignette_normalized (uniform h w a) = Inr (uniform h w (np_true_divide a a))"
    using pos by (simp add: vignette_normalized_def np_max_uniform map_array_uniform)
  show ?thesis
    unfolding final_image_float_def to_gray_def
    by (cases tv; cases tn)
       (simp_all add: hw cv2_resize_def v n divide_by_max_def vn astype_float32_def
          map_array_uniform cv2_multiply_def cv2_add_def np_multiply_scalar_def zip_array_uniform)
qed

lemma apply_style_uniform:
  assumes rc: "resize_keeps_uniform (cv2_resize_cubic E)"
    and pos: "0 < h" "0 < w" "0 < hv" "0 < wv" "0 < hn" "0 < wn"
  shows "apply_style E (Array2D (uniform h w c))
           \<lparr>dtype = tv, data = uniform hv wv a\<rparr> \<lparr>dtype = tn, data = uniform hn wn b\<rparr> \<alpha>
       = (if tv \<noteq> Float32 \<or> tn \<noteq> Float32 then Inl CvError
          else Inr (uniform h w (astype_uint8 E (np_clip 0 255
                 (add_float (mul_float (real (unat c)) (np_true_divide a a)) (b * \<alpha>))))))"
  by (simp add: apply_style_def final_image_float_uniform[OF assms] map_array_uniform)

lemma example_sample:
  "astype_uint8 E (np_clip 0 255 (add_float (mul_float 200 (np_true_divide 128 128)) 0)) = 200"
  by (simp add: np_true_divide_def mul_float_def add_float_def np_clip_def astype_uint8_def
      truncate_def)

text \<open>
  Claim C9, amended. Ten identical solid-gray images of value 128, extracted at the
  processing resolution 4 x 4 with a 3 x 3 blur kernel, give a vignetting field uniformly
  128 and a noise field uniformly 0. Applied with \<^verbatim>\<open>noise_alpha = 1\<close> to a 4 x 4
  solid-gray clean image of value 200, that fingerprint gives an image uniformly 200 once
  it has been saved and loaded, which makes it \<^verbatim>\<open>float32\<close>; applied as the
  \<^verbatim>\<open>float64\<close> arrays that the extraction returns, \<^verbatim>\<open>apply_style\<close> raises the error of
  \<^verbatim>\<open>cv2.multiply\<close>. The library is assumed to resample and to blur a uniform image into
  a uniform image of the same value.
\<close>

theorem end_to_end_example:
  assumes "resize_keeps_uniform (cv2_resize_area E)"
    and "resize_keeps_uniform (cv2_resize_cubic E)"
    and "blur_keeps_uniform (cv2_GaussianBlur E)"
    and "os_listdir E d = Inr names"
    and "length (image_paths d names) = 10"
    and "\<forall>p \<in> set (image_paths d names).
           \<exists>h w. 0 < h \<and> 0 < w \<and> cv2_imread_gray E p = Inr (Some (uniform h w 128))"
  shows "extract_fingerprint E d (4, 4) (3, 3) = ([], Inr (Some (uniform 4 4 128, uniform 4 4 0)))
       \<and> apply_style E (Array2D (uniform 4 4 200))
           (fst (saved_and_loaded (uniform 4 4 128, uniform 4 4 0)))
           (snd (saved_and_loaded (uniform 4 4 128, uniform 4 4 0))) 1
           = Inr (uniform 4 4 200)
       \<and> apply_style E (Array2D (uniform 4 4 200))
           (fst (in_memory (uniform 4 4 128, uniform 4 4 0)))
           (snd (in_memory (uniform 4 4 128, uniform 4 4 0))) 1
           = Inl CvError"
proof (intro conjI)
  from assms(5) have ne: "image_paths d names \<noteq> []" by auto
  from extract_fingerprint_uniform[OF assms(1,3,4) ne assms(6), of 4 4 3 3]
  show "extract_fingerprint E d (4, 4) (3, 3) = ([], Inr (Some (uniform 4 4 128, uniform 4 4 0)))"
    by simp
next
  from apply_style_uniform[OF assms(2), of 4 4 4 4 4 4 200 Float32 128 Float32 0 1]
  show "apply_style E (Array2D (uniform 4 4 200))
           (fst (saved_and_loaded (uniform 4 4 128, uniform 4 4 0)))
           (snd (saved_and_loaded (uniform 4 4 128, uniform 4 4 0))) 1
           = Inr (uniform 4 4 200)"
    by (simp add: saved_and_loaded_def example_sample)
next
  from apply_style_uniform[OF assms(2), of 4 4 4 4 4 4 200 Float64 128 Float64 0 1]
  show "apply_style E (Array2D (uniform 4 4 200))
           (fst (in_memory (uniform 4 4 128, uniform 4 4 0)))
           (snd (in_memory (uniform 4 4 128, uniform 4 4 0))) 1
           = Inl CvError"
    by (simp add: in_memory_def)
qed


section \<open>The model on concrete inputs\<close>

lemma demo_listdir_raw:
  "os_listdir demo_env ''raw'' = Inr [''a.png'', ''b.JPG'', ''notes.txt'', ''c.bmp'']"
  by (simp add: demo_env_def ref_env_simps demo_listdir_def)

lemma demo_paths:
  "image_paths ''raw'' [''a.png'', ''b.JPG'', ''notes.txt'', ''c.bmp'']
     = [''raw/a.png'', ''raw/b.JPG'', ''raw/c.bmp'']"
  by code_simp

lemma demo_accumulate:
  "accumulate demo_env (2, 1) (initial_state (2, 1)) [''raw/a.png'', ''raw/b.JPG'', ''raw/c.bmp'']
     = \<lparr>accumulator = \<lparr>height = 1, width = 2, pixels = [30, 90]\<rparr>,
        processed_image_count = 2, warnings = [CannotRead ''b.JPG'']\<rparr>"
  by code_simp

lemma demo_blur:
  "cv2_GaussianBlur demo_env \<lparr>height = 1, width = 2, pixels = [15, 45]\<rparr> (3, 3)
     = Inr \<lparr>height = 1, width = 2, pixels = [30, 30]\<rparr>"
  by code_simp

lemma demo_average:
  "average_image \<lparr>accumulator = \<lparr>height = 1, width = 2, pixels = [30, 90]\<rparr>,
        processed_image_count = 2, warnings = [CannotRead ''b.JPG'']\<rparr>
    = \<lparr>height = 1, width = 2, pixels = [15, 45]\<rparr>"
  by (simp add: average_image_def np_div_count_def map_array_def)

lemma demo_extract:
  "extract_fingerprint demo_env ''raw'' (2, 1) (3, 3)
     = ([CannotRead ''b.JPG''],
        Inr (Some (\<lparr>height = 1, width = 2, pixels = [30, 30]\<rparr>,
                   \<lparr>height = 1, width = 2, pixels = [- 15, 15]\<rparr>)))"
  by (simp add: extract_fingerprint_def demo_listdir_raw demo_paths demo_accumulate Let_def
      demo_average demo_blur np_sub_def zip_array_def same_shape_def
      del: One_nat_def accumulate.simps)

text \<open>
  The decomposition on the directory with one undecodable file: the average of the two
  images that load is (15, 45), its blur is (30, 30) and the noise is (-15, 15).
\<close>

theorem decomposition_lossless_witness:
  "extract_fingerprint demo_env ''raw'' (2, 1) (3, 3)
     = ([CannotRead ''b.JPG''],
        Inr (Some (\<lparr>height = 1, width = 2, pixels = [30, 30]\<rparr>,
                   \<lparr>height = 1, width = 2, pixels = [- 15, 15]\<rparr>)))
   \<and> np_add \<lparr>height = 1, width = 2, pixels = [30, 30]\<rparr> \<lparr>height = 1, width = 2, pixels = [- 15, 15]\<rparr>
     = Inr \<lparr>height = 1, width = 2, pixels = [15, 45]\<rparr>"
  using decomposition_lossless [OF demo_listdir_raw demo_extract] demo_extract
  by (simp add: demo_paths demo_accumulate demo_average del: One_nat_def accumulate.simps)

lemma demo_contracts:
  "resize_contract (cv2_resize_cubic demo_env)"
  "cvtColor_contract (cv2_cvtColor_gray demo_env)"
  by (simp_all add: demo_env_def ref_env_simps ref_resize_contract ref_cvtColor_contract)

lemma demo_usable:
  "usable_images demo_env (2, 1) [''raw/a.png'', ''raw/b.JPG'', ''raw/c.bmp'']
     = [\<lparr>height = 1, width = 2, pixels = [10, 30]\<rparr>, \<lparr>height = 1, width = 2, pixels = [20, 60]\<rparr>]"
  by code_simp

lemma demo_skipped:
  "skipped demo_env (2, 1) [''raw/a.png'', ''raw/b.JPG'', ''raw/c.bmp''] = [CannotRead ''b.JPG'']"
  by code_simp

lemma demo_mean:
  "mean_image (2, 1)
     [\<lparr>height = 1, width = 2, pixels = [10, 30]\<rparr>, \<lparr>height = 1, width = 2, pixels = [20, 60]\<rparr>]
     = \<lparr>height = 1, width = 2, pixels = [15, 45]\<rparr>"
  by code_simp

text \<open>
  The same directory: one warning for the undecodable file, and the average of the two
  images that load, divided by two and not by three.
\<close>

theorem partial_failure_tolerated_witness:
  "usable_images demo_env (2, 1) (image_paths ''raw'' [''a.png'', ''b.JPG'', ''notes.txt'', ''c.bmp''])
     = [\<lparr>height = 1, width = 2, pixels = [10, 30]\<rparr>, \<lparr>height = 1, width = 2, pixels = [20, 60]\<rparr>]
   \<and> extract_fingerprint demo_env ''raw'' (2, 1) (3, 3)
     = ([CannotRead ''b.JPG''],
        Inr (Some (\<lparr>height = 1, width = 2, pixels = [30, 30]\<rparr>,
                   difference \<lparr>height = 1, width = 2, pixels = [15, 45]\<rparr>
                     \<lparr>height = 1, width = 2, pixels = [30, 30]\<rparr>)))
   \<and> length (image_paths ''raw'' [''a.png'', ''b.JPG'', ''notes.txt'', ''c.bmp'']) = 2 + 1"
  using partial_failure_tolerated [OF demo_listdir_raw,
      of "(2, 1)" "(3, 3)" "\<lparr>height = 1, width = 2, pixels = [30, 30]\<rparr>"]
  by (simp add: demo_paths demo_usable demo_skipped demo_mean demo_blur same_shape_def
      del: One_nat_def)

lemma demo_missing: "os_listdir demo_env ''missing'' = Inl FileNotFoundError"
  by (simp add: demo_env_def ref_env_simps demo_listdir_def)

lemma demo_docs: "os_listdir demo_env ''docs'' = Inr [''notes.txt'', ''.png'']"
  by (simp add: demo_env_def ref_env_simps demo_listdir_def)

lemma demo_docs_filter: "filter supported [''notes.txt'', ''.png''] = []"
  by code_simp

lemma demo_broken: "os_listdir demo_env ''broken'' = Inr [''x.png'', ''y.TIF'']"
  by (simp add: demo_env_def ref_env_simps demo_listdir_def)

lemma demo_broken_paths:
  "image_paths ''broken'' [''x.png'', ''y.TIF''] = [''broken/x.png'', ''broken/y.TIF'']"
  by code_simp

lemma demo_broken_load:
  "isl (load_image demo_env (2, 1) ''broken/x.png'')"
  "isl (load_image demo_env (2, 1) ''broken/y.TIF'')"
  by code_simp+

text \<open>
  A missing directory, a directory without supported files, and a directory whose files
  do not decode.
\<close>

theorem empty_batch_fails_witness:
  "snd (extract_fingerprint demo_env ''missing'' (2, 1) (3, 3)) = Inr None
   \<and> snd (extract_fingerprint demo_env ''docs'' (2, 1) (3, 3)) = Inr None
   \<and> snd (extract_fingerprint demo_env ''broken'' (2, 1) (3, 3)) = Inr None"
proof -
  have docs: "\<exists>names. os_listdir demo_env ''docs'' = Inr names
       \<and> (filter supported names = []
          \<or> (\<forall>p \<in> set (image_paths ''docs'' names). isl (load_image demo_env (2, 1) p)))"
    using demo_docs demo_docs_filter by blast
  have broken: "\<exists>names. os_listdir demo_env ''broken'' = Inr names
       \<and> (filter supported names = []
          \<or> (\<forall>p \<in> set (image_paths ''broken'' names). isl (load_image demo_env (2, 1) p)))"
    using demo_broken demo_broken_load by (auto simp: demo_broken_paths)
  show ?thesis
    using empty_batch_fails [of demo_env "''missing''" "(2, 1)" "(3, 3)"]
      empty_batch_fails [of demo_env "''docs''" "(2, 1)" "(3, 3)"]
      empty_batch_fails [of demo_env "''broken''" "(2, 1)" "(3, 3)"]
      demo_missing docs broken
    by blast
qed

lemma demo_field_max: "np_max \<lparr>height = 1, width = 2, pixels = [2, 4]\<rparr> = Inr 4"
  by (simp add: np_max_def)

text \<open>
  The field (2, 4) has maximum 4 and the finite normalized field (1/2, 1).
\<close>

theorem division_finite_witness:
  "np_max \<lparr>height = 1, width = 2, pixels = [2, 4]\<rparr> = Inr 4 \<and> (0::real) < 4
   \<and> vignette_normalized \<lparr>height = 1, width = 2, pixels = [2, 4]\<rparr>
       = Inr \<lparr>height = 1, width = 2, pixels = [Fin (1 / 2), Fin 1]\<rparr>
   \<and> all_finite \<lparr>height = 1, width = 2, pixels = [Fin (1 / 2), Fin 1]\<rparr>"
  using division_finite [OF demo_field_max] demo_field_max
  by (simp add: map_array_def)

text \<open>
  The field (2, 4), whose maximum 4 is positive.
\<close>

theorem normalization_bound_witness:
  "np_max \<lparr>height = 1, width = 2, pixels = [2, 4]\<rparr> = Inr 4 \<and> (0::real) < 4
   \<and> (\<exists>vn. vignette_normalized \<lparr>height = 1, width = 2, pixels = [2, 4]\<rparr> = Inr vn
          \<and> normalized_bound vn)"
  using normalization_bound [OF demo_field_max] demo_field_max
  by simp

lemma apply_styleI:
  assumes "to_gray E c = Inr g"
    and "cv2_resize E v (width g, height g) = Inr vr"
    and "cv2_resize E n (width g, height g) = Inr nr"
    and "divide_by_max vr = Inr vn"
    and "cv2_multiply (astype_float32 g) vn = Inr iwv"
    and "cv2_add iwv (np_multiply_scalar nr \<alpha>) = Inr fin"
    and "map_array (\<lambda>x. astype_uint8 E (np_clip 0 255 x)) (data fin) = out"
  shows "final_image_float E c v n \<alpha> = Inr fin" and "apply_style E c v n \<alpha> = Inr out"
proof -
  show f: "final_image_float E c v n \<alpha> = Inr fin"
    unfolding final_image_float_def Let_def by (simp only: assms sum.case)
  show "apply_style E c v n \<alpha> = Inr out"
    unfolding apply_style_def by (simp only: f assms(7) sum.case)
qed

lemma demo_steps:
  "to_gray demo_env (Array2D \<lparr>height = 1, width = 2, pixels = [200, 10]\<rparr>)
     = Inr \<lparr>height = 1, width = 2, pixels = [200, 10]\<rparr>"
  "cv2_resize demo_env \<lparr>dtype = Float32, data = \<lparr>height = 1, width = 2, pixels = [4, 4]\<rparr>\<rparr>
       (width \<lparr>height = 1, width = 2, pixels = [200, 10 :: 8 word]\<rparr>,
        height \<lparr>height = 1, width = 2, pixels = [200, 10 :: 8 word]\<rparr>)
     = Inr \<lparr>dtype = Float32, data = \<lparr>height = 1, width = 2, pixels = [4, 4]\<rparr>\<rparr>"
  "cv2_resize demo_env \<lparr>dtype = Float32, data = \<lparr>height = 1, width = 2, pixels = [100, - 50]\<rparr>\<rparr>
       (width \<lparr>height = 1, width = 2, pixels = [200, 10 :: 8 word]\<rparr>,
        height \<lparr>height = 1, width = 2, pixels = [200, 10 :: 8 word]\<rparr>)
     = Inr \<lparr>dtype = Float32, data = \<lparr>height = 1, width = 2, pixels = [100, - 50]\<rparr>\<rparr>"
  "divide_by_max \<lparr>dtype = Float32, data = \<lparr>height = 1, width = 2, pixels = [4, 4]\<rparr>\<rparr>
     = Inr \<lparr>dtype = Float32, data = \<lparr>height = 1, width = 2, pixels = [Fin 1, Fin 1]\<rparr>\<rparr>"
  "cv2_multiply (astype_float32 \<lparr>height = 1, width = 2, pixels = [200, 10]\<rparr>)
       \<lparr>dtype = Float32, data = \<lparr>height = 1, width = 2, pixels = [Fin 1, Fin 1]\<rparr>\<rparr>
     = Inr \<lparr>dtype = Float32, data = \<lparr>height = 1, width = 2, pixels = [Fin 200, Fin 10]\<rparr>\<rparr>"
  "cv2_add \<lparr>dtype = Float32, data = \<lparr>height = 1, width = 2, pixels = [Fin 200, Fin 10]\<rparr>\<rparr>
       (np_multiply_scalar
          \<lparr>dtype = Float32, data = \<lparr>height = 1, width = 2, pixels = [100, - 50]\<rparr>\<rparr> 1)
     = Inr \<lparr>dtype = Float32, data = \<lparr>height = 1, width = 2, pixels = [Fin 300, Fin (- 40)]\<rparr>\<rparr>"
  "map_array (\<lambda>x. astype_uint8 demo_env (np_clip 0 255 x))
       (data \<lparr>dtype = Float32, data = \<lparr>height = 1, width = 2, pixels = [Fin 300, Fin (- 40)]\<rparr>\<rparr>)
     = \<lparr>height = 1, width = 2, pixels = [255, 0]\<rparr>"
  by code_simp+

lemma demo_final:
  "final_image_float demo_env (Array2D \<lparr>height = 1, width = 2, pixels = [200, 10]\<rparr>)
     \<lparr>dtype = Float32, data = \<lparr>height = 1, width = 2, pixels = [4, 4]\<rparr>\<rparr>
     \<lparr>dtype = Float32, data = \<lparr>height = 1, width = 2, pixels = [100, - 50]\<rparr>\<rparr> 1
   = Inr \<lparr>dtype = Float32, data = \<lparr>height = 1, width = 2, pixels = [Fin 300, Fin (- 40)]\<rparr>\<rparr>"
  by (rule apply_styleI(1) [OF demo_steps])

lemma demo_apply:
  "apply_style demo_env (Array2D \<lparr>height = 1, width = 2, pixels = [200, 10]\<rparr>)
     \<lparr>dtype = Float32, data = \<lparr>height = 1, width = 2, pixels = [4, 4]\<rparr>\<rparr>
     \<lparr>dtype = Float32, data = \<lparr>height = 1, width = 2, pixels = [100, - 50]\<rparr>\<rparr> 1
   = Inr \<lparr>height = 1, width = 2, pixels = [255, 0]\<rparr>"
  by (rule apply_styleI(2) [OF demo_steps])

lemma demo_apply_zero:
  "apply_style demo_env (Array2D \<lparr>height = 1, width = 2, pixels = [200, 10]\<rparr>)
     \<lparr>dtype = Float32, data = \<lparr>height = 1, width = 2, pixels = [2, 4]\<rparr>\<rparr>
     \<lparr>dtype = Float32, data = \<lparr>height = 1, width = 2, pixels = [100, - 50]\<rparr>\<rparr> 0
   = Inr \<lparr>height = 1, width = 2, pixels = [100, 10]\<rparr>"
  by (rule apply_styleI(2) [where g = "\<lparr>height = 1, width = 2, pixels = [200, 10]\<rparr>"
        and vr = "\<lparr>dtype = Float32, data = \<lparr>height = 1, width = 2, pixels = [2, 4]\<rparr>\<rparr>"
        and nr = "\<lparr>dtype = Float32, data = \<lparr>height = 1, width = 2, pixels = [100, - 50]\<rparr>\<rparr>"
        and vn = "\<lparr>dtype = Float32, data = \<lparr>height = 1, width = 2, pixels = [Fin (1 / 2), Fin 1]\<rparr>\<rparr>"
        and iwv = "\<lparr>dtype = Float32, data = \<lparr>height = 1, width = 2, pixels = [Fin 100, Fin 10]\<rparr>\<rparr>"
        and fin = "\<lparr>dtype = Float32, data = \<lparr>height = 1, width = 2, pixels = [Fin 100, Fin 10]\<rparr>\<rparr>"];
      code_simp)

text \<open>
  A product of 200 with noise 100 gives 300 before clipping and the sample 255; 10 with
  noise -50 gives -40 before clipping and the sample 0.
\<close>

theorem output_in_range_witness:
  "apply_style demo_env (Array2D \<lparr>height = 1, width = 2, pixels = [200, 10]\<rparr>)
     \<lparr>dtype = Float32, data = \<lparr>height = 1, width = 2, pixels = [4, 4]\<rparr>\<rparr>
     \<lparr>dtype = Float32, data = \<lparr>height = 1, width = 2, pixels = [100, - 50]\<rparr>\<rparr> 1
   = Inr \<lparr>height = 1, width = 2, pixels = [255, 0]\<rparr>
   \<and> final_image_float demo_env (Array2D \<lparr>height = 1, width = 2, pixels = [200, 10]\<rparr>)
     \<lparr>dtype = Float32, data = \<lparr>height = 1, width = 2, pixels = [4, 4]\<rparr>\<rparr>
     \<lparr>dtype = Float32, data = \<lparr>height = 1, width = 2, pixels = [100, - 50]\<rparr>\<rparr> 1
   = Inr \<lparr>dtype = Float32, data = \<lparr>height = 1, width = 2, pixels = [Fin 300, Fin (- 40)]\<rparr>\<rparr>
   \<and> uint ([255, 0 :: 8 word] ! 0) = 255 \<and> uint ([255, 0 :: 8 word] ! 1) = 0"
  using output_in_range [OF demo_apply] demo_apply demo_final
  by simp

text \<open>
  With no noise strength the noise field (100, -50) leaves no trace.
\<close>

theorem noise_alpha_zero_witness:
  "apply_style demo_env (Array2D \<lparr>height = 1, width = 2, pixels = [200, 10]\<rparr>)
     \<lparr>dtype = Float32, data = \<lparr>height = 1, width = 2, pixels = [2, 4]\<rparr>\<rparr>
     \<lparr>dtype = Float32, data = \<lparr>height = 1, width = 2, pixels = [100, - 50]\<rparr>\<rparr> 0
   = Inr \<lparr>height = 1, width = 2, pixels = [100, 10]\<rparr>
   \<and> vignette_only demo_env (Array2D \<lparr>height = 1, width = 2, pixels = [200, 10]\<rparr>)
        \<lparr>dtype = Float32, data = \<lparr>height = 1, width = 2, pixels = [2, 4]\<rparr>\<rparr>
   = Inr \<lparr>height = 1, width = 2, pixels = [100, 10]\<rparr>"
  using noise_alpha_zero [OF demo_apply_zero] demo_apply_zero
  by simp

lemma demo_apply_mismatched:
  "apply_style demo_env (Array2D \<lparr>height = 1, width = 1, pixels = [100]\<rparr>)
     \<lparr>dtype = Float32, data = \<lparr>height = 1, width = 1, pixels = [2]\<rparr>\<rparr>
     \<lparr>dtype = Float32, data = \<lparr>height = 1, width = 2, pixels = [0, 0]\<rparr>\<rparr> (1 / 2)
   = Inr \<lparr>height = 1, width = 1, pixels = [100]\<rparr>"
  by (rule apply_styleI(2) [where g = "\<lparr>height = 1, width = 1, pixels = [100]\<rparr>"
        and vr = "\<lparr>dtype = Float32, data = \<lparr>height = 1, width = 1, pixels = [2]\<rparr>\<rparr>"
        and nr = "\<lparr>dtype = Float32, data = \<lparr>height = 1, width = 1, pixels = [0]\<rparr>\<rparr>"
        and vn = "\<lparr>dtype = Float32, data = \<lparr>height = 1, width = 1, pixels = [Fin 1]\<rparr>\<rparr>"
        and iwv = "\<lparr>dtype = Float32, data = \<lparr>height = 1, width = 1, pixels = [Fin 100]\<rparr>\<rparr>"
        and fin = "\<lparr>dtype = Float32, data = \<lparr>height = 1, width = 1, pixels = [Fin 100]\<rparr>\<rparr>"];
      code_simp)

text \<open>
  Claim C3 as stated fails: a vignetting field of one sample and a noise field of two
  samples are mismatched, and \<^verbatim>\<open>apply_style\<close> returns an image all the same.
\<close>

theorem mismatched_fields_accepted:
  "apply_style demo_env (Array2D \<lparr>height = 1, width = 1, pixels = [100]\<rparr>)
     \<lparr>dtype = Float32, data = \<lparr>height = 1, width = 1, pixels = [2]\<rparr>\<rparr>
     \<lparr>dtype = Float32, data = \<lparr>height = 1, width = 2, pixels = [0, 0]\<rparr>\<rparr> (1 / 2)
   = Inr \<lparr>height = 1, width = 1, pixels = [100]\<rparr>
   \<and> \<not> same_shape \<lparr>height = 1, width = 1, pixels = [2 :: real]\<rparr>
          \<lparr>height = 1, width = 2, pixels = [0, 0 :: real]\<rparr>"
  using demo_apply_mismatched by (simp add: same_shape_def)

lemma demo_to_gray_colour:
  "to_gray demo_env (Array3D \<lparr>height3 = 1, width3 = 1, channels3 = 3, samples3 = [100, 100, 100]\<rparr>)
     = Inr \<lparr>height = 1, width = 1, pixels = [100]\<rparr>"
  by (simp add: to_gray_def demo_env_def ref_env_simps ref_cvtColor_def)

lemma demo_apply_colour:
  "apply_style demo_env
     (Array3D \<lparr>height3 = 1, width3 = 1, channels3 = 3, samples3 = [100, 100, 100]\<rparr>)
     \<lparr>dtype = Float32, data = \<lparr>height = 1, width = 1, pixels = [2]\<rparr>\<rparr>
     \<lparr>dtype = Float32, data = \<lparr>height = 1, width = 1, pixels = [0]\<rparr>\<rparr> (1 / 2)
   = Inr \<lparr>height = 1, width = 1, pixels = [100]\<rparr>"
  by (rule apply_styleI(2) [OF demo_to_gray_colour, where
        vr = "\<lparr>dtype = Float32, data = \<lparr>height = 1, width = 1, pixels = [2]\<rparr>\<rparr>"
        and nr = "\<lparr>dtype = Float32, data = \<lparr>height = 1, width = 1, pixels = [0]\<rparr>\<rparr>"
        and vn = "\<lparr>dtype = Float32, data = \<lparr>height = 1, width = 1, pixels = [Fin 1]\<rparr>\<rparr>"
        and iwv = "\<lparr>dtype = Float32, data = \<lparr>height = 1, width = 1, pixels = [Fin 100]\<rparr>\<rparr>"
        and fin = "\<lparr>dtype = Float32, data = \<lparr>height = 1, width = 1, pixels = [Fin 100]\<rparr>\<rparr>"];
      code_simp)

lemma demo_to_gray_2d:
  "to_gray demo_env (Array2D \<lparr>height = 1, width = 1, pixels = [100]\<rparr>)
     = Inr \<lparr>height = 1, width = 1, pixels = [100]\<rparr>"
  by (simp add: to_gray_def)

lemma demo_apply_float64:
  "apply_style demo_env (Array2D \<lparr>height = 1, width = 1, pixels = [100]\<rparr>)
     \<lparr>dtype = Float64, data = \<lparr>height = 2, width = 2, pixels = [2, 2, 2, 2]\<rparr>\<rparr>
     \<lparr>dtype = Float64, data = \<lparr>height = 2, width = 2, pixels = [0, 0, 0, 0]\<rparr>\<rparr> (1 / 2)
   = Inl CvError"
  by (rule apply_style_fails [OF demo_contracts(1) demo_to_gray_2d])
     (simp_all add: well_formed_def)

text \<open>
  Claim C6 as stated fails twice. A fingerprint of 2 x 2 fields as the extraction returns
  it, in \<^verbatim>\<open>float64\<close>, is not resampled and applied without error: \<^verbatim>\<open>cv2.multiply\<close>
  raises. And a colour image of shape (1, 1, 3) gives a result of shape (1, 1).
\<close>

theorem resolution_invariance_counterexample:
  "apply_style demo_env (Array2D \<lparr>height = 1, width = 1, pixels = [100]\<rparr>)
     \<lparr>dtype = Float64, data = \<lparr>height = 2, width = 2, pixels = [2, 2, 2, 2]\<rparr>\<rparr>
     \<lparr>dtype = Float64, data = \<lparr>height = 2, width = 2, pixels = [0, 0, 0, 0]\<rparr>\<rparr> (1 / 2)
   = Inl CvError
   \<and> apply_style demo_env
     (Array3D \<lparr>height3 = 1, width3 = 1, channels3 = 3, samples3 = [100, 100, 100]\<rparr>)
     \<lparr>dtype = Float32, data = \<lparr>height = 1, width = 1, pixels = [2]\<rparr>\<rparr>
     \<lparr>dtype = Float32, data = \<lparr>height = 1, width = 1, pixels = [0]\<rparr>\<rparr> (1 / 2)
   = Inr \<lparr>height = 1, width = 1, pixels = [100]\<rparr>
   \<and> shape2 \<lparr>height = 1, width = 1, pixels = [100 :: 8 word]\<rparr>
       \<noteq> shape_of (Array3D \<lparr>height3 = 1, width3 = 1, channels3 = 3, samples3 = [100, 100, 100]\<rparr>)"
  using demo_apply_float64 demo_apply_colour by (simp add: shape2_def shape_of_def)

text \<open>
  An empty vignetting field is rejected by the resampling and a \<^verbatim>\<open>float64\<close> noise field
  by the addition; a \<^verbatim>\<open>float32\<close> field of one sample with a \<^verbatim>\<open>float32\<close> noise field
  of two by two samples is accepted.
\<close>

theorem apply_style_failure_modes_witness:
  "apply_style demo_env (Array2D \<lparr>height = 1, width = 2, pixels = [200, 10]\<rparr>)
     \<lparr>dtype = Float32, data = \<lparr>height = 0, width = 0, pixels = []\<rparr>\<rparr>
     \<lparr>dtype = Float32, data = \<lparr>height = 1, width = 1, pixels = [0]\<rparr>\<rparr> 1 = Inl CvError
   \<and> apply_style demo_env (Array2D \<lparr>height = 1, width = 2, pixels = [200, 10]\<rparr>)
     \<lparr>dtype = Float32, data = \<lparr>height = 1, width = 1, pixels = [2]\<rparr>\<rparr>
     \<lparr>dtype = Float64, data = \<lparr>height = 1, width = 1, pixels = [0]\<rparr>\<rparr> 1 = Inl CvError
   \<and> (\<exists>out. apply_style demo_env (Array2D \<lparr>height = 1, width = 2, pixels = [200, 10]\<rparr>)
         \<lparr>dtype = Float32, data = \<lparr>height = 1, width = 1, pixels = [2]\<rparr>\<rparr>
         \<lparr>dtype = Float32, data = \<lparr>height = 2, width = 2, pixels = [0, 0, 0, 0]\<rparr>\<rparr> 1
       = Inr out)"
  using apply_style_failure_modes [OF demo_contracts,
      of "Array2D \<lparr>height = 1, width = 2, pixels = [200, 10]\<rparr>"
         "\<lparr>dtype = Float32, data = \<lparr>height = 0, width = 0, pixels = []\<rparr>\<rparr>"
         "\<lparr>dtype = Float32, data = \<lparr>height = 1, width = 1, pixels = [0]\<rparr>\<rparr>" 1]
    apply_style_failure_modes [OF demo_contracts,
      of "Array2D \<lparr>height = 1, width = 2, pixels = [200, 10]\<rparr>"
         "\<lparr>dtype = Float32, data = \<lparr>height = 1, width = 1, pixels = [2]\<rparr>\<rparr>"
         "\<lparr>dtype = Float64, data = \<lparr>height = 1, width = 1, pixels = [0]\<rparr>\<rparr>" 1]
    apply_style_failure_modes [OF demo_contracts,
      of "Array2D \<lparr>height = 1, width = 2, pixels = [200, 10]\<rparr>"
         "\<lparr>dtype = Float32, data = \<lparr>height = 1, width = 1, pixels = [2]\<rparr>\<rparr>"
         "\<lparr>dtype = Float32, data = \<lparr>height = 2, width = 2, pixels = [0, 0, 0, 0]\<rparr>\<rparr>" 1]
  by (simp add: well_formed_clean_def well_formed_def empty_array_def)

text \<open>
  A colour image of two rows and one column, with \<^verbatim>\<open>float32\<close> fields of other sizes.
\<close>

theorem resolution_invariance_witness:
  "\<exists>g vignette_resized noise_resized out.
       to_gray demo_env
         (Array3D \<lparr>height3 = 2, width3 = 1, channels3 = 3, samples3 = [1, 2, 3, 4, 5, 6]\<rparr>) = Inr g
     \<and> cv2_resize demo_env \<lparr>dtype = Float32, data = \<lparr>height = 1, width = 1, pixels = [2]\<rparr>\<rparr>
         (width g, height g) = Inr vignette_resized
     \<and> shape2 (data vignette_resized) = [2, 1]
     \<and> cv2_resize demo_env \<lparr>dtype = Float32, data = \<lparr>height = 1, width = 2, pixels = [0, 0]\<rparr>\<rparr>
         (width g, height g) = Inr noise_resized
     \<and> shape2 (data noise_resized) = [2, 1]
     \<and> apply_style demo_env
         (Array3D \<lparr>height3 = 2, width3 = 1, channels3 = 3, samples3 = [1, 2, 3, 4, 5, 6]\<rparr>)
         \<lparr>dtype = Float32, data = \<lparr>height = 1, width = 1, pixels = [2]\<rparr>\<rparr>
         \<lparr>dtype = Float32, data = \<lparr>height = 1, width = 2, pixels = [0, 0]\<rparr>\<rparr> 1 = Inr out
     \<and> shape2 out = [2, 1] \<and> length (pixels out) = height out * width out"
  using resolution_invariance [OF demo_contracts,
      of "Array3D \<lparr>height3 = 2, width3 = 1, channels3 = 3, samples3 = [1, 2, 3, 4, 5, 6]\<rparr>"
         "\<lparr>dtype = Float32, data = \<lparr>height = 1, width = 1, pixels = [2]\<rparr>\<rparr>"
         "\<lparr>dtype = Float32, data = \<lparr>height = 1, width = 2, pixels = [0, 0]\<rparr>\<rparr>" 1]
  by (simp add: well_formed_clean_def empty_array_def shape_of_def)

lemma gray_contracts:
  "resize_keeps_uniform (cv2_resize_area gray_env)"
  "resize_keeps_uniform (cv2_resize_cubic gray_env)"
  "blur_keeps_uniform (cv2_GaussianBlur gray_env)"
  by (simp_all add: gray_env_def ref_env_simps ref_resize_keeps_uniform ref_blur_keeps_uniform)

lemma gray_listdir: "os_listdir gray_env ''gray'' = Inr gray_names"
  by (simp add: gray_env_def ref_env_simps)

lemma gray_paths: "length (image_paths ''gray'' gray_names) = 10"
  by code_simp

lemma gray_imread:
  "\<forall>p \<in> set (image_paths ''gray'' gray_names).
     \<exists>h w. 0 < h \<and> 0 < w \<and> cv2_imread_gray gray_env p = Inr (Some (uniform h w 128))"
  by (auto simp: gray_env_def ref_env_simps intro!: exI[of _ 2])

lemma gray_extract:
  "extract_fingerprint gray_env ''gray'' (4, 4) (3, 3)
     = ([], Inr (Some (uniform 4 4 128, uniform 4 4 0)))"
proof -
  from gray_paths have ne: "image_paths ''gray'' gray_names \<noteq> []" by auto
  from extract_fingerprint_uniform
    [OF gray_contracts(1) gray_contracts(3) gray_listdir ne gray_imread, of 4 4 3 3]
  show ?thesis by simp
qed

text \<open>
  Claim C9 as stated fails: the fingerprint of the ten gray images, applied as the
  extraction returns it, does not give an image; \<^verbatim>\<open>cv2.multiply\<close> raises on the
  \<^verbatim>\<open>float32\<close> image and the \<^verbatim>\<open>float64\<close> field.
\<close>

theorem end_to_end_in_memory_raises:
  "extract_fingerprint gray_env ''gray'' (4, 4) (3, 3)
     = ([], Inr (Some (uniform 4 4 128, uniform 4 4 0)))
   \<and> apply_style gray_env (Array2D (uniform 4 4 200))
       (fst (in_memory (uniform 4 4 128, uniform 4 4 0)))
       (snd (in_memory (uniform 4 4 128, uniform 4 4 0))) 1
       = Inl CvError"
  using gray_extract
    apply_style_uniform [OF gray_contracts(2), of 4 4 4 4 4 4 200 Float64 128 Float64 0 1]
  by (simp add: in_memory_def)

text \<open>
  The example on the reference library and a directory of ten gray files.
\<close>

theorem end_to_end_example_witness:
  "extract_fingerprint gray_env ''gray'' (4, 4) (3, 3)
     = ([], Inr (Some (uniform 4 4 128, uniform 4 4 0)))
   \<and> apply_style gray_env (Array2D (uniform 4 4 200))
       (fst (saved_and_loaded (uniform 4 4 128, uniform 4 4 0)))
       (snd (saved_and_loaded (uniform 4 4 128, uniform 4 4 0))) 1
       = Inr (uniform 4 4 200)
   \<and> apply_style gray_env (Array2D (uniform 4 4 200))
       (fst (in_memory (uniform 4 4 128, uniform 4 4 0)))
       (snd (in_memory (uniform 4 4 128, uniform 4 4 0))) 1
       = Inl CvError"
  using end_to_end_example [OF gray_contracts gray_listdir gray_paths gray_imread]
  by simp

end
